theory Spec2Isabelle
  imports Main "HOL-Library.Word" "HOL-Library.Monad_Syntax"
begin

unbundle bit_operations_syntax

section \<open>MIDI output adapter (src/platform/{windows,linux,macos}/midi.cpp)\<close>

text \<open>
  The three files define the same six functions of namespace \<open>platf\<close>, one set per
  platform. The Windows functions keep their names; those of the Linux and macOS files
  carry the suffix \<open>_linux\<close> and \<open>_macos\<close>.
\<close>

subsection \<open>Machine types\<close>

type_synonym u8 = "8 word"
type_synonym UINT = "32 word"
type_synonym DWORD = "32 word"
type_synonym MMRESULT = "32 word"

text \<open>
  \<open>HMIDIOUT\<close> is a pointer-sized opaque handle; only its comparison with \<open>nullptr\<close>
  matters to the code.
\<close>

type_synonym HMIDIOUT = nat

abbreviation (input) nullptr :: HMIDIOUT where
  "nullptr \<equiv> 0"

text \<open>
  Modelled from the spec: the constant \<open>MMSYSERR_NOERROR\<close> comes from the platform
  header \<open>mmsystem.h\<close>, which is not under src/. The spec calls every non-zero result
  code a platform failure, so the success code is 0.
\<close>

abbreviation (input) MMSYSERR_NOERROR :: MMRESULT where
  "MMSYSERR_NOERROR \<equiv> 0"

text \<open>
  \<open>midi_device_info_t\<close> (declared in src/platform/common.h, not under src/) is used
  as a pair of an \<open>int\<close> id and a name. The field \<open>id\<close> clashes with the identity
  function of HOL, hence the prefix.
\<close>

record midi_device_info_t =
  dev_id :: int
  dev_name :: string

text \<open>
  \<open>MIDIHDR\<close>: the fields the code sets, and \<open>dwFlags\<close>, which the platform updates
  when it prepares and un-prepares the header. \<open>lpData\<close> points at the caller's
  buffer; the model holds the buffer it points at. All other fields stay zero.
\<close>

record MIDIHDR =
  lpData :: "u8 list"
  dwBufferLength :: DWORD
  dwBytesRecorded :: DWORD
  dwFlags :: DWORD

subsection \<open>Observable events: platform calls and log records\<close>

datatype severity = Debug | Info | Warning | Error

text \<open>A log record is the sequence of items streamed into \<open>BOOST_LOG(level)\<close>.\<close>

datatype log_item = Text string | UInt "32 word" | SInt int | Size nat

text \<open>Every call of the Windows multimedia API, with its arguments and what it returned.\<close>

datatype call =
    MidiOutGetNumDevs UINT
  | MidiOutGetDevCapsW UINT MMRESULT string
  | MidiOutOpen UINT MMRESULT HMIDIOUT
  | MidiOutReset HMIDIOUT MMRESULT
  | MidiOutClose HMIDIOUT MMRESULT
  | MidiOutShortMsg HMIDIOUT DWORD MMRESULT
  | MidiOutPrepareHeader HMIDIOUT MIDIHDR MMRESULT
  | MidiOutLongMsg HMIDIOUT MIDIHDR MMRESULT
  | MidiOutUnprepareHeader HMIDIOUT MIDIHDR MMRESULT

datatype event = Call call | Log severity "log_item list"

subsection \<open>The platform\<close>

text \<open>
  The Windows multimedia subsystem is outside the repository. It is a parameter of the
  model: a state of any type \<open>'p\<close> and, for each API function the code calls, what it
  returns and how it changes that state. \<open>winmm_GetDevCapsW\<close> returns the device name
  already converted to UTF-8 (the code converts \<open>caps.szPname\<close> with
  \<open>WideCharToMultiByte\<close>, another platform call). \<open>winmm_Open\<close> returns the value
  the call leaves in \<open>*phmo\<close>. The three header calls return the header as the platform
  leaves it.
\<close>

record 'p winmm =
  winmm_GetNumDevs :: "'p \<Rightarrow> UINT \<times> 'p"
  winmm_GetDevCapsW :: "UINT \<Rightarrow> 'p \<Rightarrow> (MMRESULT \<times> string) \<times> 'p"
  winmm_Open :: "UINT \<Rightarrow> 'p \<Rightarrow> (MMRESULT \<times> HMIDIOUT) \<times> 'p"
  winmm_Reset :: "HMIDIOUT \<Rightarrow> 'p \<Rightarrow> MMRESULT \<times> 'p"
  winmm_Close :: "HMIDIOUT \<Rightarrow> 'p \<Rightarrow> MMRESULT \<times> 'p"
  winmm_ShortMsg :: "HMIDIOUT \<Rightarrow> DWORD \<Rightarrow> 'p \<Rightarrow> MMRESULT \<times> 'p"
  winmm_PrepareHeader :: "HMIDIOUT \<Rightarrow> MIDIHDR \<Rightarrow> 'p \<Rightarrow> (MMRESULT \<times> MIDIHDR) \<times> 'p"
  winmm_LongMsg :: "HMIDIOUT \<Rightarrow> MIDIHDR \<Rightarrow> 'p \<Rightarrow> (MMRESULT \<times> MIDIHDR) \<times> 'p"
  winmm_UnprepareHeader :: "HMIDIOUT \<Rightarrow> MIDIHDR \<Rightarrow> 'p \<Rightarrow> (MMRESULT \<times> MIDIHDR) \<times> 'p"

subsection \<open>The adapter's state (Windows)\<close>

text \<open>
  \<open>midi_handle\<close> is the file's only variable (\<open>static HMIDIOUT midi_handle = nullptr\<close>).
  The state also carries the platform's state and the events so far, oldest first.
\<close>

record 'p state =
  midi_handle :: HMIDIOUT
  winmm_state :: "'p"
  trace :: "event list"

definition initial_state :: "'p \<Rightarrow> 'p state" where
  "initial_state p = \<lparr>midi_handle = nullptr, winmm_state = p, trace = []\<rparr>"

definition BOOST_LOG :: "severity \<Rightarrow> log_item list \<Rightarrow> 'p state \<Rightarrow> 'p state" where
  "BOOST_LOG lvl items s = s\<lparr>trace := trace s @ [Log lvl items]\<rparr>"

text \<open>Each API call runs the platform and records the call.\<close>

definition midiOutGetNumDevs :: "'p winmm \<Rightarrow> 'p state \<Rightarrow> UINT \<times> 'p state" where
  "midiOutGetNumDevs P s =
     (case winmm_GetNumDevs P (winmm_state s) of (n, p) \<Rightarrow>
        (n, s\<lparr>winmm_state := p, trace := trace s @ [Call (MidiOutGetNumDevs n)]\<rparr>))"

definition midiOutGetDevCapsW ::
  "'p winmm \<Rightarrow> UINT \<Rightarrow> 'p state \<Rightarrow> (MMRESULT \<times> string) \<times> 'p state" where
  "midiOutGetDevCapsW P i s =
     (case winmm_GetDevCapsW P i (winmm_state s) of ((r, nm), p) \<Rightarrow>
        ((r, nm), s\<lparr>winmm_state := p, trace := trace s @ [Call (MidiOutGetDevCapsW i r nm)]\<rparr>))"

text \<open>\<open>midiOutOpen(&midi_handle, device_id, 0, 0, CALLBACK_NULL)\<close> writes \<open>midi_handle\<close>.\<close>

definition midiOutOpen :: "'p winmm \<Rightarrow> UINT \<Rightarrow> 'p state \<Rightarrow> MMRESULT \<times> 'p state" where
  "midiOutOpen P device_id s =
     (case winmm_Open P device_id (winmm_state s) of ((r, h), p) \<Rightarrow>
        (r, s\<lparr>midi_handle := h, winmm_state := p,
              trace := trace s @ [Call (MidiOutOpen device_id r h)]\<rparr>))"

definition midiOutReset :: "'p winmm \<Rightarrow> HMIDIOUT \<Rightarrow> 'p state \<Rightarrow> MMRESULT \<times> 'p state" where
  "midiOutReset P h s =
     (case winmm_Reset P h (winmm_state s) of (r, p) \<Rightarrow>
        (r, s\<lparr>winmm_state := p, trace := trace s @ [Call (MidiOutReset h r)]\<rparr>))"

definition midiOutClose :: "'p winmm \<Rightarrow> HMIDIOUT \<Rightarrow> 'p state \<Rightarrow> MMRESULT \<times> 'p state" where
  "midiOutClose P h s =
     (case winmm_Close P h (winmm_state s) of (r, p) \<Rightarrow>
        (r, s\<lparr>winmm_state := p, trace := trace s @ [Call (MidiOutClose h r)]\<rparr>))"

definition midiOutShortMsg ::
  "'p winmm \<Rightarrow> HMIDIOUT \<Rightarrow> DWORD \<Rightarrow> 'p state \<Rightarrow> MMRESULT \<times> 'p state" where
  "midiOutShortMsg P h msg s =
     (case winmm_ShortMsg P h msg (winmm_state s) of (r, p) \<Rightarrow>
        (r, s\<lparr>winmm_state := p, trace := trace s @ [Call (MidiOutShortMsg h msg r)]\<rparr>))"

definition midiOutPrepareHeader ::
  "'p winmm \<Rightarrow> HMIDIOUT \<Rightarrow> MIDIHDR \<Rightarrow> 'p state \<Rightarrow> (MMRESULT \<times> MIDIHDR) \<times> 'p state" where
  "midiOutPrepareHeader P h hdr s =
     (case winmm_PrepareHeader P h hdr (winmm_state s) of ((r, hdr'), p) \<Rightarrow>
        ((r, hdr'),
         s\<lparr>winmm_state := p, trace := trace s @ [Call (MidiOutPrepareHeader h hdr r)]\<rparr>))"

definition midiOutLongMsg ::
  "'p winmm \<Rightarrow> HMIDIOUT \<Rightarrow> MIDIHDR \<Rightarrow> 'p state \<Rightarrow> (MMRESULT \<times> MIDIHDR) \<times> 'p state" where
  "midiOutLongMsg P h hdr s =
     (case winmm_LongMsg P h hdr (winmm_state s) of ((r, hdr'), p) \<Rightarrow>
        ((r, hdr'),
         s\<lparr>winmm_state := p, trace := trace s @ [Call (MidiOutLongMsg h hdr r)]\<rparr>))"

definition midiOutUnprepareHeader ::
  "'p winmm \<Rightarrow> HMIDIOUT \<Rightarrow> MIDIHDR \<Rightarrow> 'p state \<Rightarrow> (MMRESULT \<times> MIDIHDR) \<times> 'p state" where
  "midiOutUnprepareHeader P h hdr s =
     (case winmm_UnprepareHeader P h hdr (winmm_state s) of ((r, hdr'), p) \<Rightarrow>
        ((r, hdr'),
         s\<lparr>winmm_state := p, trace := trace s @ [Call (MidiOutUnprepareHeader h hdr r)]\<rparr>))"

subsection \<open>windows/midi.cpp\<close>

text \<open>
  \<open>midi_list_devices\<close>: the loop \<open>for (UINT i = 0; i < num_devs; i++)\<close>. A device
  whose capabilities cannot be read is skipped. \<open>(int) i\<close> is the two's complement
  reading of \<open>i\<close>. The conversion of the name to UTF-8 is taken to succeed.
\<close>

function list_devices_loop ::
  "'p winmm \<Rightarrow> UINT \<Rightarrow> UINT \<Rightarrow> midi_device_info_t list \<Rightarrow> 'p state
     \<Rightarrow> midi_device_info_t list \<times> 'p state" where
  "list_devices_loop P i num_devs devices s =
     (if i < num_devs then
        (case midiOutGetDevCapsW P i s of ((r, nm), s') \<Rightarrow>
           list_devices_loop P (i + 1) num_devs
             (if r = MMSYSERR_NOERROR then devices @ [\<lparr>dev_id = sint i, dev_name = nm\<rparr>]
              else devices) s')
      else (devices, s))"
  by pat_completeness auto
termination
proof (relation "measure (\<lambda>(P, i, n, devices, s). unat n - unat i)", goal_cases)
  case 1
  show ?case by simp
next
  case (2 P i num_devs devices s)
  have lt: "unat i < unat num_devs"
    using 2(1) by (simp add: word_less_nat_alt)
  moreover have "unat num_devs < 2 ^ 32"
    using unsigned_less [of num_devs] by simp
  ultimately have "unat (i + 1) = unat i + 1"
    by (simp add: unat_word_ariths)
  with lt show ?case by simp
qed

definition midi_list_devices :: "'p winmm \<Rightarrow> 'p state \<Rightarrow> midi_device_info_t list \<times> 'p state" where
  "midi_list_devices P s =
     (case midiOutGetNumDevs P s of (num_devs, s') \<Rightarrow> list_devices_loop P 0 num_devs [] s')"

text \<open>\<open>midi_close\<close>: the result codes of the reset and of the close are not looked at.\<close>

definition midi_close :: "'p winmm \<Rightarrow> 'p state \<Rightarrow> 'p state" where
  "midi_close P s =
     (if midi_handle s \<noteq> nullptr then
        (case midiOutReset P (midi_handle s) s of (r1, s1) \<Rightarrow>
         case midiOutClose P (midi_handle s1) s1 of (r2, s2) \<Rightarrow>
           BOOST_LOG Debug [Text ''Closed MIDI output device''] (s2\<lparr>midi_handle := nullptr\<rparr>))
      else s)"

text \<open>
  The search loop of \<open>midi_open\<close> over the enumerated devices: it stops at the first
  device whose name equals \<open>device_name\<close>, with \<open>device_id = dev.id\<close> (an \<open>int\<close>
  converted to \<open>UINT\<close>) and \<open>found = true\<close>. \<open>CHR 0x27\<close> is the single quote of
  the log text.
\<close>

fun find_device_loop ::
  "string \<Rightarrow> midi_device_info_t list \<Rightarrow> UINT \<Rightarrow> 'p state \<Rightarrow> UINT \<times> bool \<times> 'p state" where
  "find_device_loop device_name [] device_id s = (device_id, False, s)"
| "find_device_loop device_name (dev # devices) device_id s =
     (if dev_name dev = device_name then
        (word_of_int (dev_id dev), True,
         BOOST_LOG Info [Text (''Found MIDI device '' @ [CHR 0x27]), Text device_name,
                         Text (CHR 0x27 # '' at index ''),
                         UInt (word_of_int (dev_id dev))] s)
      else find_device_loop device_name devices device_id s)"

text \<open>
  \<open>midi_open\<close> in its three steps: closing the handle that is open (lines 70-72),
  choosing the device id (\<open>select_device\<close>, lines 74-93), and the check for devices
  followed by the platform's open (\<open>open_device\<close>, lines 95-109).
\<close>

definition select_device :: "'p winmm \<Rightarrow> string \<Rightarrow> 'p state \<Rightarrow> UINT \<times> 'p state" where
  "select_device P device_name s =
     (if device_name \<noteq> ''auto'' \<and> device_name \<noteq> [] then
        (case midi_list_devices P s of (devices, sa) \<Rightarrow>
         case find_device_loop device_name devices 0 sa of (device_id, found, sb) \<Rightarrow>
           (device_id,
            if \<not> found then
              BOOST_LOG Warning [Text (''MIDI device '' @ [CHR 0x27]), Text device_name,
                                 Text (CHR 0x27 # '' not found, using default'')] sb
            else sb))
      else (0, s))"

definition open_device :: "'p winmm \<Rightarrow> UINT \<Rightarrow> 'p state \<Rightarrow> int \<times> 'p state" where
  "open_device P device_id s =
     (case midiOutGetNumDevs P s of (n, s2) \<Rightarrow>
        if n = 0 then
          (- 1, BOOST_LOG Warning [Text ''No MIDI output devices available''] s2)
        else
          (case midiOutOpen P device_id s2 of (result, s3) \<Rightarrow>
             if result \<noteq> MMSYSERR_NOERROR then
               (- 1, (BOOST_LOG Error [Text ''Failed to open MIDI device: error '', UInt result] s3)
                       \<lparr>midi_handle := nullptr\<rparr>)
             else
               (0, BOOST_LOG Info [Text ''Opened MIDI output device '', UInt device_id] s3)))"

definition midi_open :: "'p winmm \<Rightarrow> string \<Rightarrow> 'p state \<Rightarrow> int \<times> 'p state" where
  "midi_open P device_name s =
     (let s0 = (if midi_handle s \<noteq> nullptr then midi_close P s else s)
      in case select_device P device_name s0 of (device_id, s1) \<Rightarrow> open_device P device_id s1)"

text \<open>
  \<open>midi_send(data, length)\<close>. \<open>data\<close> is \<open>None\<close> for \<open>nullptr\<close> and \<open>Some bs\<close>
  for a pointer to a buffer holding the bytes \<open>bs\<close>. Reading \<open>data[i]\<close> past the end
  of the buffer is undefined behaviour in C++: the model then returns \<open>None\<close>. The
  test \<open>length == 0 || data == nullptr\<close> is the \<open>None\<close> case of \<open>data\<close> and the
  test \<open>len = 0\<close>: both give -1 and change nothing.
\<close>

definition read_u8 :: "u8 list \<Rightarrow> nat \<Rightarrow> u8 option" where
  "read_u8 bs i = (if i < length bs then Some (bs ! i) else None)"

text \<open>
  The packing of a short message:
  \<open>DWORD msg = data[0]; if (length > 1) msg |= ((DWORD) data[1] << 8);
    if (length > 2) msg |= ((DWORD) data[2] << 16);\<close>
\<close>

definition short_msg :: "u8 list \<Rightarrow> nat \<Rightarrow> DWORD option" where
  "short_msg bs len =
     do {
       b0 \<leftarrow> read_u8 bs 0;
       let msg = (ucast b0 :: DWORD);
       msg \<leftarrow> (if len > 1 then
                 do { b1 \<leftarrow> read_u8 bs 1; Some (msg OR push_bit 8 (ucast b1 :: DWORD)) }
               else Some msg);
       (if len > 2 then
          do { b2 \<leftarrow> read_u8 bs 2; Some (msg OR push_bit 16 (ucast b2 :: DWORD)) }
        else Some msg)
     }"

text \<open>
  The long path: the header is zero but for \<open>lpData\<close>, \<open>dwBufferLength\<close> and
  \<open>dwBytesRecorded\<close>; \<open>(DWORD) length\<close> keeps the low 32 bits. The result of
  \<open>midiOutUnprepareHeader\<close> is dropped.
\<close>

definition send_long :: "'p winmm \<Rightarrow> u8 list \<Rightarrow> nat \<Rightarrow> 'p state \<Rightarrow> int \<times> 'p state" where
  "send_long P bs len s =
     (let header = \<lparr>lpData = bs, dwBufferLength = of_nat len, dwBytesRecorded = of_nat len,
                     dwFlags = 0\<rparr>
      in case midiOutPrepareHeader P (midi_handle s) header s of ((result, header1), s1) \<Rightarrow>
           if result \<noteq> MMSYSERR_NOERROR then
             (- 1, BOOST_LOG Warning [Text ''MIDI prepare header failed: error '', UInt result] s1)
           else
             (case midiOutLongMsg P (midi_handle s1) header1 s1 of ((result, header2), s2) \<Rightarrow>
              case midiOutUnprepareHeader P (midi_handle s2) header2 s2 of ((r3, header3), s3) \<Rightarrow>
                if result \<noteq> MMSYSERR_NOERROR then
                  (- 1, BOOST_LOG Warning [Text ''MIDI long message send failed: error '',
                                           UInt result] s3)
                else (0, s3)))"

definition midi_send ::
  "'p winmm \<Rightarrow> u8 list option \<Rightarrow> nat \<Rightarrow> 'p state \<Rightarrow> (int \<times> 'p state) option" where
  "midi_send P data len s =
     (if midi_handle s = nullptr then
        Some (- 1, BOOST_LOG Debug [Text ''MIDI send called but no device open''] s)
      else
        (case data of
           None \<Rightarrow> Some (- 1, s)
         | Some bs \<Rightarrow>
             if len = 0 then Some (- 1, s)
             else if len \<le> 3 then
               (case short_msg bs len of
                  None \<Rightarrow> None
                | Some msg \<Rightarrow>
                    (case midiOutShortMsg P (midi_handle s) msg s of (result, s1) \<Rightarrow>
                       if result \<noteq> MMSYSERR_NOERROR then
                         Some (- 1, BOOST_LOG Warning
                                      [Text ''MIDI short message send failed: error '',
                                       UInt result] s1)
                       else Some (0, s1)))
             else Some (send_long P bs len s)))"

text \<open>
  \<open>midi_init\<close> reads \<open>config::input.midi\<close> and \<open>config::input.midi_device\<close>
  (src/config.h, not under src/): they are parameters.
\<close>

record config_input =
  midi :: bool
  midi_device :: string

fun log_devices :: "midi_device_info_t list \<Rightarrow> 'p state \<Rightarrow> 'p state" where
  "log_devices [] s = s"
| "log_devices (dev # devices) s =
     log_devices devices
       (BOOST_LOG Info [Text ''  MIDI device '', SInt (dev_id dev), Text '': '',
                        Text (dev_name dev)] s)"

definition midi_init :: "'p winmm \<Rightarrow> config_input \<Rightarrow> 'p state \<Rightarrow> int \<times> 'p state" where
  "midi_init P input s =
     (let s0 = BOOST_LOG Info [Text ''Initializing MIDI subsystem''] s
      in case midi_list_devices P s0 of (devices, s1) \<Rightarrow>
         let s2 = BOOST_LOG Info [Text ''Found '', Size (length devices),
                                  Text '' MIDI output device(s)''] s1;
             s3 = log_devices devices s2;
             s4 = (if midi input \<and> midi_device input \<noteq> [] then
                     (case midi_open P (midi_device input) s3 of (r, sa) \<Rightarrow>
                        if r = 0 then
                          BOOST_LOG Info [Text ''MIDI output device opened successfully''] sa
                        else BOOST_LOG Warning [Text ''Failed to open MIDI output device''] sa)
                   else s3)
         in (0, s4))"

definition midi_deinit :: "'p winmm \<Rightarrow> 'p state \<Rightarrow> 'p state" where
  "midi_deinit P s = midi_close P (BOOST_LOG Info [Text ''Shutting down MIDI subsystem''] s)"

subsection \<open>linux/midi.cpp and macos/midi.cpp\<close>

text \<open>
  The two stub files have no variable and call no platform function: their state is the
  log alone.
\<close>

definition midi_init_linux :: "event list \<Rightarrow> int \<times> event list" where
  "midi_init_linux tr = (0, tr @ [Log Info [Text ''MIDI support not yet implemented on Linux'']])"

definition midi_deinit_linux :: "event list \<Rightarrow> event list" where
  "midi_deinit_linux tr = tr"

definition midi_list_devices_linux :: "event list \<Rightarrow> midi_device_info_t list \<times> event list" where
  "midi_list_devices_linux tr = ([], tr)"

definition midi_open_linux :: "string \<Rightarrow> event list \<Rightarrow> int \<times> event list" where
  "midi_open_linux device_name tr =
     (- 1, tr @ [Log Warning [Text ''MIDI not supported on this platform'']])"

definition midi_close_linux :: "event list \<Rightarrow> event list" where
  "midi_close_linux tr = tr"

definition midi_send_linux :: "u8 list option \<Rightarrow> nat \<Rightarrow> event list \<Rightarrow> int \<times> event list" where
  "midi_send_linux data len tr = (- 1, tr)"

definition midi_init_macos :: "event list \<Rightarrow> int \<times> event list" where
  "midi_init_macos tr = (0, tr @ [Log Info [Text ''MIDI support not yet implemented on macOS'']])"

definition midi_deinit_macos :: "event list \<Rightarrow> event list" where
  "midi_deinit_macos tr = tr"

definition midi_list_devices_macos :: "event list \<Rightarrow> midi_device_info_t list \<times> event list" where
  "midi_list_devices_macos tr = ([], tr)"

definition midi_open_macos :: "string \<Rightarrow> event list \<Rightarrow> int \<times> event list" where
  "midi_open_macos device_name tr =
     (- 1, tr @ [Log Warning [Text ''MIDI not supported on this platform'']])"

definition midi_close_macos :: "event list \<Rightarrow> event list" where
  "midi_close_macos tr = tr"

definition midi_send_macos :: "u8 list option \<Rightarrow> nat \<Rightarrow> event list \<Rightarrow> int \<times> event list" where
  "midi_send_macos data len tr = (- 1, tr)"

section \<open>Observations\<close>

text \<open>The events a call adds to the trace: those of \<open>s'\<close> after those of \<open>s\<close>.\<close>

definition emitted :: "'p state \<Rightarrow> 'p state \<Rightarrow> event list" where
  "emitted s s' = drop (length (trace s)) (trace s')"

text \<open>The platform calls among some events, in order.\<close>

fun calls :: "event list \<Rightarrow> call list" where
  "calls [] = []"
| "calls (Call c # es) = c # calls es"
| "calls (Log lvl items # es) = calls es"

text \<open>
  The non-zero result codes of the calls whose result \<open>midi_send\<close> looks at:
  \<open>midiOutShortMsg\<close>, \<open>midiOutPrepareHeader\<close> and \<open>midiOutLongMsg\<close>.
\<close>

fun send_failures :: "call list \<Rightarrow> MMRESULT list" where
  "send_failures [] = []"
| "send_failures (MidiOutShortMsg h msg r # cs) =
     (if r \<noteq> MMSYSERR_NOERROR then r # send_failures cs else send_failures cs)"
| "send_failures (MidiOutPrepareHeader h hdr r # cs) =
     (if r \<noteq> MMSYSERR_NOERROR then r # send_failures cs else send_failures cs)"
| "send_failures (MidiOutLongMsg h hdr r # cs) =
     (if r \<noteq> MMSYSERR_NOERROR then r # send_failures cs else send_failures cs)"
| "send_failures (c # cs) = send_failures cs"

text \<open>
  What \<open>midi_open\<close> asks of the platform: the device ids passed to \<open>midiOutOpen\<close>,
  the indices passed to \<open>midiOutGetDevCapsW\<close>, and the counts \<open>midiOutGetNumDevs\<close>
  reported.
\<close>

fun open_attempts :: "call list \<Rightarrow> UINT list" where
  "open_attempts [] = []"
| "open_attempts (MidiOutOpen d r h # cs) = d # open_attempts cs"
| "open_attempts (c # cs) = open_attempts cs"

fun caps_queries :: "call list \<Rightarrow> UINT list" where
  "caps_queries [] = []"
| "caps_queries (MidiOutGetDevCapsW i r nm # cs) = i # caps_queries cs"
| "caps_queries (c # cs) = caps_queries cs"

fun numdevs_reports :: "call list \<Rightarrow> UINT list" where
  "numdevs_reports [] = []"
| "numdevs_reports (MidiOutGetNumDevs n # cs) = n # numdevs_reports cs"
| "numdevs_reports (c # cs) = numdevs_reports cs"

subsection \<open>Live handles\<close>

text \<open>
  A handle is live from the \<open>midiOutOpen\<close> call that returned it with success until it
  is passed to \<open>midiOutClose\<close>. (\<open>midi_close\<close> does not look at the result code of
  \<open>midiOutClose\<close>: for the adapter the handle is gone once the call is made.)
  \<open>live_handles\<close> replays a trace and returns the handles live after it.
\<close>

fun live_step :: "HMIDIOUT list \<Rightarrow> event \<Rightarrow> HMIDIOUT list" where
  "live_step L (Call (MidiOutOpen d r h)) =
     (if r = MMSYSERR_NOERROR \<and> h \<noteq> nullptr then L @ [h] else L)"
| "live_step L (Call (MidiOutClose h r)) = remove1 h L"
| "live_step L e = L"

definition live_handles :: "event list \<Rightarrow> HMIDIOUT list" where
  "live_handles tr = foldl live_step [] tr"

subsection \<open>Callers\<close>

text \<open>
  A caller makes any sequence of calls of the six functions, with any arguments.
  \<open>api_run\<close> is the state after the sequence, \<open>None\<close> when a call has undefined
  behaviour. \<open>calls_midi_open\<close> marks the two calls that run \<open>midi_open\<close>.
\<close>

datatype api_call =
  Init config_input | Deinit | ListDevices | Open string | Close | Send "u8 list option" nat

fun api_step :: "'p winmm \<Rightarrow> api_call \<Rightarrow> 'p state \<Rightarrow> 'p state option" where
  "api_step P (Init input) s = Some (snd (midi_init P input s))"
| "api_step P Deinit s = Some (midi_deinit P s)"
| "api_step P ListDevices s = Some (snd (midi_list_devices P s))"
| "api_step P (Open device_name) s = Some (snd (midi_open P device_name s))"
| "api_step P Close s = Some (midi_close P s)"
| "api_step P (Send data len) s = map_option snd (midi_send P data len s)"

fun api_run :: "'p winmm \<Rightarrow> api_call list \<Rightarrow> 'p state \<Rightarrow> 'p state option" where
  "api_run P [] s = Some s"
| "api_run P (c # cs) s = (case api_step P c s of None \<Rightarrow> None | Some s' \<Rightarrow> api_run P cs s')"

fun calls_midi_open :: "api_call \<Rightarrow> bool" where
  "calls_midi_open (Init input) = True"
| "calls_midi_open (Open device_name) = True"
| "calls_midi_open c = False"

subsection \<open>Notions used in the proofs\<close>

text \<open>
  \<open>handle_call\<close> marks the two calls that change the set of live handles, and
  \<open>enum_event\<close> the events of an enumeration. \<open>ok_from L evs\<close> holds when at most one
  handle is live before, between and after the events \<open>evs\<close>, starting from the live
  handles \<open>L\<close>. \<open>one_handle\<close> is the invariant of the adapter: at most one handle was
  live at every point of the trace, and the live handle is \<open>midi_handle\<close>.
\<close>

fun handle_call :: "event \<Rightarrow> bool" where
  "handle_call (Call (MidiOutOpen d r h)) = True"
| "handle_call (Call (MidiOutClose h r)) = True"
| "handle_call e = False"

fun enum_event :: "event \<Rightarrow> bool" where
  "enum_event (Call (MidiOutGetNumDevs n)) = True"
| "enum_event (Call (MidiOutGetDevCapsW i r nm)) = True"
| "enum_event (Log lvl items) = True"
| "enum_event e = False"

fun ok_from :: "HMIDIOUT list \<Rightarrow> event list \<Rightarrow> bool" where
  "ok_from L [] = (length L \<le> 1)"
| "ok_from L (e # es) = (length L \<le> 1 \<and> ok_from (live_step L e) es)"

definition one_handle :: "'p state \<Rightarrow> bool" where
  "one_handle s \<longleftrightarrow>
     ok_from [] (trace s)
     \<and> foldl live_step [] (trace s) = (if midi_handle s = nullptr then [] else [midi_handle s])"

subsection \<open>A simulated platform\<close>

text \<open>
  A platform with the output devices \<open>names\<close>, whose state counts the handles it has
  given out. Opening, the short send, preparing, the long send and un-preparing return
  the given result codes; preparing sets \<open>MHDR_PREPARED\<close> (2) in \<open>dwFlags\<close> and
  un-preparing clears it.
\<close>

definition simulated_winmm ::
  "string list \<Rightarrow> MMRESULT \<Rightarrow> MMRESULT \<Rightarrow> MMRESULT \<Rightarrow> MMRESULT \<Rightarrow> MMRESULT \<Rightarrow> nat winmm" where
  "simulated_winmm names open_r short_r prepare_r long_r unprepare_r =
     \<lparr>winmm_GetNumDevs = (\<lambda>p. (of_nat (length names), p)),
      winmm_GetDevCapsW =
        (\<lambda>i p. (if unat i < length names then (0, names ! unat i) else (2, []), p)),
      winmm_Open = (\<lambda>d p. ((open_r, if open_r = 0 then Suc p else 0), Suc p)),
      winmm_Reset = (\<lambda>h p. (0, p)),
      winmm_Close = (\<lambda>h p. (0, p)),
      winmm_ShortMsg = (\<lambda>h msg p. (short_r, p)),
      winmm_PrepareHeader =
        (\<lambda>h hdr p. ((prepare_r, if prepare_r = 0 then hdr\<lparr>dwFlags := 2\<rparr> else hdr), p)),
      winmm_LongMsg = (\<lambda>h hdr p. ((long_r, hdr), p)),
      winmm_UnprepareHeader =
        (\<lambda>h hdr p. ((unprepare_r, if unprepare_r = 0 then hdr\<lparr>dwFlags := 0\<rparr> else hdr), p))\<rparr>"

text \<open>A state in which the first handle of the simulated platform is open.\<close>

definition open_state :: "nat state" where
  "open_state = \<lparr>midi_handle = 1, winmm_state = 1, trace = []\<rparr>"

definition sysex :: "u8 list" where
  "sysex = [0xF0, 0x7E, 0x7F, 0x09, 0xF7]"

definition sysex_header :: "DWORD \<Rightarrow> MIDIHDR" where
  "sysex_header flags =
     \<lparr>lpData = sysex, dwBufferLength = 5, dwBytesRecorded = 5, dwFlags = flags\<rparr>"

text \<open>
  The simulated platform with two devices; the state after enumerating them from the
  initial state; and the state after opening one and then the other.
\<close>

definition two_synths :: "nat winmm" where
  "two_synths = simulated_winmm [''Synth A'', ''Synth B''] 0 0 0 0 0"

definition enumerated :: "nat state" where
  "enumerated = \<lparr>midi_handle = nullptr, winmm_state = 0,
                  trace = [Call (MidiOutGetNumDevs 2),
                           Call (MidiOutGetDevCapsW 0 0 ''Synth A''),
                           Call (MidiOutGetDevCapsW 1 0 ''Synth B'')]\<rparr>"

definition two_opens :: "nat state" where
  "two_opens = snd (midi_open two_synths ''Synth B'' (snd (midi_open two_synths ''Synth A'' (initial_state 0))))"

section \<open>Properties\<close>

subsection \<open>The stub backends\<close>

text \<open>
  C9. On the Linux and macOS backends \<open>midi_list_devices\<close> returns the empty sequence,
  \<open>midi_open\<close> returns -1 for every device name (\<open>"auto"\<close> included) and
  \<open>midi_send\<close> returns -1 for every payload, dropping the message without a log
  record.
\<close>

theorem stub_backends_reject:
  "fst (midi_list_devices_linux tr) = [] \<and> fst (midi_list_devices_macos tr) = []
   \<and> fst (midi_open_linux device_name tr) = - 1 \<and> fst (midi_open_macos device_name tr) = - 1
   \<and> fst (midi_open_linux ''auto'' tr) = - 1 \<and> fst (midi_open_macos ''auto'' tr) = - 1
   \<and> midi_send_linux data len tr = (- 1, tr) \<and> midi_send_macos data len tr = (- 1, tr)"
  by (simp add: midi_list_devices_linux_def midi_list_devices_macos_def midi_open_linux_def
      midi_open_macos_def midi_send_linux_def midi_send_macos_def)

subsection \<open>Sending\<close>

lemma calls_append: "calls (xs @ ys) = calls xs @ calls ys"
  by (induction xs rule: calls.induct) simp_all

lemma emitted_BOOST_LOG: "emitted s (BOOST_LOG lvl items s) = [Log lvl items]"
  by (simp add: emitted_def BOOST_LOG_def)

text \<open>
  C5. \<open>midi_send\<close> returns -1 whenever no device is open, for every payload, and its
  only trace is one debug-level log record. With a device open it returns -1 when the
  length is 0 or the data pointer is null, and then the state is unchanged: nothing is
  logged and the platform is not called.
\<close>

theorem midi_send_rejects_benign:
  "(midi_handle s = nullptr \<longrightarrow>
      midi_send P data len s = Some (- 1, BOOST_LOG Debug [Text ''MIDI send called but no device open''] s)
      \<and> emitted s (BOOST_LOG Debug [Text ''MIDI send called but no device open''] s)
          = [Log Debug [Text ''MIDI send called but no device open'']])
   \<and> (midi_handle s \<noteq> nullptr \<and> (len = 0 \<or> data = None) \<longrightarrow> midi_send P data len s = Some (- 1, s))"
  by (simp add: midi_send_def emitted_BOOST_LOG split: option.split)

theorem midi_send_rejects_benign_witness:
  "midi_handle (initial_state (0::nat)) = nullptr
   \<and> midi_send (simulated_winmm [''Synth''] 0 0 0 0 0) (Some [0x90, 0x40, 0x7F]) 3 (initial_state 0)
       = Some (- 1, \<lparr>midi_handle = nullptr, winmm_state = 0,
                     trace = [Log Debug [Text ''MIDI send called but no device open'']]\<rparr>)
   \<and> midi_handle open_state \<noteq> nullptr
   \<and> midi_send (simulated_winmm [''Synth''] 0 0 0 0 0) (Some [0x90, 0x40, 0x7F]) 0 open_state
       = Some (- 1, open_state)
   \<and> midi_send (simulated_winmm [''Synth''] 0 0 0 0 0) None 3 open_state = Some (- 1, open_state)"
  using midi_send_rejects_benign [of "initial_state 0" "simulated_winmm [''Synth''] 0 0 0 0 0"
      "Some [0x90, 0x40, 0x7F]" 3]
    midi_send_rejects_benign [of open_state "simulated_winmm [''Synth''] 0 0 0 0 0"
      "Some [0x90, 0x40, 0x7F]" 0]
    midi_send_rejects_benign [of open_state "simulated_winmm [''Synth''] 0 0 0 0 0" None 3]
  by (simp add: initial_state_def open_state_def BOOST_LOG_def)

text \<open>How the short path packs one, two and three bytes.\<close>

lemma short_msg_1: "short_msg [a] (Suc 0) = Some (ucast a)"
  by (simp add: short_msg_def read_u8_def)

lemma short_msg_2: "short_msg [a, b] (Suc (Suc 0)) = Some (ucast a OR push_bit 8 (ucast b))"
  by (simp add: short_msg_def read_u8_def)

lemma short_msg_3:
  "short_msg [a, b, c] (Suc (Suc (Suc 0)))
     = Some (ucast a OR push_bit 8 (ucast b) OR push_bit 16 (ucast c))"
  by (simp add: short_msg_def read_u8_def ac_simps)

lemma short_msg_example: "short_msg [0x90, 0x40] (Suc (Suc 0)) = Some 0x4090"
  by (simp add: short_msg_def read_u8_def)

lemma u8_high_bit: "\<not> bit (a :: u8) (8 + n)"
  using bit_imp_le_length [of a "8 + n"] by auto

lemma u8_high_bit': "\<not> bit (a :: u8) (16 + n)"
  using bit_imp_le_length [of a "16 + n"] by auto

lemma pack_bits:
  fixes a b c :: u8
  defines "w \<equiv> (ucast a OR push_bit 8 (ucast b) OR push_bit 16 (ucast c) :: DWORD)"
  shows "ucast w = a" "ucast (drop_bit 8 w) = b" "ucast (drop_bit 16 w) = c" "drop_bit 24 w = 0"
  unfolding w_def
  by (rule bit_word_eqI; auto simp: bit_simps u8_high_bit u8_high_bit' dest: bit_imp_le_length)+

lemma short_msg_bytes:
  assumes "1 \<le> length bs" and "length bs \<le> 3"
  shows "\<exists>msg. short_msg bs (length bs) = Some msg
     \<and> (ucast msg :: u8) = bs ! 0
     \<and> (ucast (drop_bit 8 msg) :: u8) = (if 1 < length bs then bs ! 1 else 0)
     \<and> (ucast (drop_bit 16 msg) :: u8) = (if 2 < length bs then bs ! 2 else 0)
     \<and> drop_bit 24 msg = 0"
proof -
  consider a where "bs = [a]" | a b where "bs = [a, b]" | a b c where "bs = [a, b, c]"
    using assms by (cases bs; cases "tl bs"; cases "tl (tl bs)"; cases "tl (tl (tl bs))") auto
  then show ?thesis
  proof cases
    case 1
    define w :: DWORD where "w = ucast a OR push_bit 8 (ucast (0 :: u8)) OR push_bit 16 (ucast (0 :: u8))"
    have "short_msg bs (length bs) = Some w"
      by (simp add: 1 short_msg_1 w_def)
    then show ?thesis
      using pack_bits [of a 0 0, folded w_def] by (simp add: 1)
  next
    case 2
    define w :: DWORD where "w = ucast a OR push_bit 8 (ucast b) OR push_bit 16 (ucast (0 :: u8))"
    have "short_msg bs (length bs) = Some w"
      by (simp add: 2 short_msg_2 w_def)
    then show ?thesis
      using pack_bits [of a b 0, folded w_def] by (simp add: 2)
  next
    case 3
    define w :: DWORD where "w = ucast a OR push_bit 8 (ucast b) OR push_bit 16 (ucast c)"
    have "short_msg bs (length bs) = Some w"
      by (simp add: 3 short_msg_3 w_def)
    then show ?thesis
      using pack_bits [of a b c, folded w_def] by (simp add: 3)
  qed
qed

lemma midi_send_short:
  assumes "midi_handle s \<noteq> nullptr" and "0 < len" and "len \<le> 3" and "short_msg bs len = Some msg"
  shows "\<exists>result r s'. midi_send P (Some bs) len s = Some (r, s')
     \<and> calls (emitted s s') = [MidiOutShortMsg (midi_handle s) msg result]
     \<and> r = (if result = MMSYSERR_NOERROR then 0 else - 1)"
  using assms
  by (cases "winmm_ShortMsg P (midi_handle s) msg (winmm_state s)")
     (simp add: midi_send_def midiOutShortMsg_def emitted_def BOOST_LOG_def calls_append)

lemma short_msg_take:
  assumes "len \<le> length bs" and "1 \<le> len" and "len \<le> 3"
  shows "short_msg bs len = short_msg (take len bs) len"
proof -
  from assms consider "len = 1" | "len = 2" | "len = 3"
    by linarith
  then show ?thesis
    using assms(1) by cases (auto simp: short_msg_def read_u8_def)
qed

text \<open>
  C1. With a device open and a length of one to three bytes, within the buffer,
  \<open>midi_send\<close> makes one platform call, \<open>midiOutShortMsg\<close>, with a word that holds
  byte 0 in bits 0-7, byte 1 in bits 8-15, byte 2 in bits 16-23, zero for a missing byte
  and zero above bit 23. The payload \<open>[0x90, 0x40]\<close> gives the word \<open>0x4090\<close>. This
  holds for every platform, so whatever the send call returns.
\<close>

theorem midi_send_short_packs:
  assumes "midi_handle s \<noteq> nullptr" and "1 \<le> len" and "len \<le> 3" and "len \<le> length bs"
  shows "\<exists>msg result r s'.
       midi_send P (Some bs) len s = Some (r, s')
     \<and> calls (emitted s s') = [MidiOutShortMsg (midi_handle s) msg result]
     \<and> (ucast msg :: u8) = bs ! 0
     \<and> (ucast (drop_bit 8 msg) :: u8) = (if 1 < len then bs ! 1 else 0)
     \<and> (ucast (drop_bit 16 msg) :: u8) = (if 2 < len then bs ! 2 else 0)
     \<and> drop_bit 24 msg = 0
     \<and> (take len bs = [0x90, 0x40] \<longrightarrow> msg = 0x4090)"
proof -
  let ?bs = "take len bs"
  have l: "length ?bs = len"
    using assms(4) by simp
  have "1 \<le> length ?bs" and "length ?bs \<le> 3"
    using assms(2,3) l by simp_all
  from short_msg_bytes [OF this, unfolded l]
  obtain msg where m': "short_msg ?bs len = Some msg"
    and b': "(ucast msg :: u8) = ?bs ! 0"
      "(ucast (drop_bit 8 msg) :: u8) = (if 1 < len then ?bs ! 1 else 0)"
      "(ucast (drop_bit 16 msg) :: u8) = (if 2 < len then ?bs ! 2 else 0)"
      "drop_bit 24 msg = 0"
    by blast
  have m: "short_msg bs len = Some msg"
    using m' short_msg_take [OF assms(4,2,3)] by simp
  have b: "(ucast msg :: u8) = bs ! 0"
      "(ucast (drop_bit 8 msg) :: u8) = (if 1 < len then bs ! 1 else 0)"
      "(ucast (drop_bit 16 msg) :: u8) = (if 2 < len then bs ! 2 else 0)"
    using b'(1-3) assms(2) by (simp_all split: if_splits)
  have ex: "take len bs = [0x90, 0x40] \<longrightarrow> msg = 0x4090"
  proof
    assume e: "take len bs = [0x90, 0x40]"
    with l have "len = Suc (Suc 0)" by simp
    with m' e show "msg = 0x4090" by (simp add: short_msg_example)
  qed
  have "0 < len"
    using assms(2) by simp
  from midi_send_short [OF assms(1) this assms(3) m, of P]
  obtain result r s' where "midi_send P (Some bs) len s = Some (r, s')"
    and "calls (emitted s s') = [MidiOutShortMsg (midi_handle s) msg result]"
    by blast
  with b b'(4) ex show ?thesis by blast
qed

theorem midi_send_short_packs_witness:
  "midi_handle open_state \<noteq> nullptr \<and> 1 \<le> (2 :: nat) \<and> (2 :: nat) \<le> 3
   \<and> 2 \<le> length [0x90, 0x40 :: u8] \<and> take 2 [0x90, 0x40 :: u8] = [0x90, 0x40]
   \<and> midi_send (simulated_winmm [''Synth''] 0 11 0 0 0) (Some [0x90, 0x40]) 2 open_state
       = Some (- 1, \<lparr>midi_handle = 1, winmm_state = 1,
                     trace = [Call (MidiOutShortMsg 1 0x4090 11),
                              Log Warning [Text ''MIDI short message send failed: error '',
                                           UInt 11]]\<rparr>)
   \<and> midi_send (simulated_winmm [''Synth''] 0 0 0 0 0) (Some [0x90, 0x40]) 2 open_state
       = Some (0, \<lparr>midi_handle = 1, winmm_state = 1,
                    trace = [Call (MidiOutShortMsg 1 0x4090 0)]\<rparr>)"
proof -
  have h: "midi_handle open_state \<noteq> nullptr"
    by (simp add: open_state_def)
  have l: "1 \<le> (2 :: nat)" "(2 :: nat) \<le> 3" "2 \<le> length [0x90, 0x40 :: u8]"
    by simp_all
  have t: "take 2 [0x90, 0x40 :: u8] = [0x90, 0x40]"
    by simp
  from midi_send_short_packs [OF h l, of "simulated_winmm [''Synth''] 0 11 0 0 0"] t
  obtain result r s' where
    1: "midi_send (simulated_winmm [''Synth''] 0 11 0 0 0) (Some [0x90, 0x40]) 2 open_state = Some (r, s')"
    and 2: "calls (emitted open_state s') = [MidiOutShortMsg (midi_handle open_state) 0x4090 result]"
    by auto
  have f: "midi_send (simulated_winmm [''Synth''] 0 11 0 0 0) (Some [0x90, 0x40]) 2 open_state
       = Some (- 1, \<lparr>midi_handle = 1, winmm_state = 1,
                     trace = [Call (MidiOutShortMsg 1 0x4090 11),
                              Log Warning [Text ''MIDI short message send failed: error '',
                                           UInt 11]]\<rparr>)"
    by (simp add: midi_send_def short_msg_def read_u8_def midiOutShortMsg_def
        simulated_winmm_def open_state_def BOOST_LOG_def)
  have g: "midi_send (simulated_winmm [''Synth''] 0 0 0 0 0) (Some [0x90, 0x40]) 2 open_state
       = Some (0, \<lparr>midi_handle = 1, winmm_state = 1,
                    trace = [Call (MidiOutShortMsg 1 0x4090 0)]\<rparr>)"
    by (simp add: midi_send_def short_msg_def read_u8_def midiOutShortMsg_def
        simulated_winmm_def open_state_def BOOST_LOG_def)
  from 1 2 h l t f g show ?thesis by blast
qed

text \<open>
  C2, as the code has it. With a device open and a length above 3, \<open>midi_send\<close> calls
  \<open>midiOutPrepareHeader\<close> on a header that points at the buffer and carries the
  length. When that call succeeds, the calls that follow are one \<open>midiOutLongMsg\<close> on
  the header as the preparation left it and then one \<open>midiOutUnprepareHeader\<close> on the
  header as the long send left it, whatever the long send returned. When the preparation
  fails, it is the only call: the message is neither submitted nor un-prepared, and the
  result is -1. The hypotheses name what the platform returns to these three calls.
\<close>

theorem midi_send_long_unprepares_once:
  assumes "midi_handle s \<noteq> nullptr" and "3 < len"
    and "header = \<lparr>lpData = bs, dwBufferLength = of_nat len, dwBytesRecorded = of_nat len,
                    dwFlags = 0\<rparr>"
    and "winmm_PrepareHeader P (midi_handle s) header (winmm_state s) = ((r1, hdr1), p1)"
    and "winmm_LongMsg P (midi_handle s) hdr1 p1 = ((r2, hdr2), p2)"
    and "winmm_UnprepareHeader P (midi_handle s) hdr2 p2 = ((r3, hdr3), p3)"
  shows "\<exists>s'.
       midi_send P (Some bs) len s
         = Some (if r1 = MMSYSERR_NOERROR \<and> r2 = MMSYSERR_NOERROR then 0 else - 1, s')
     \<and> midi_handle s' = midi_handle s
     \<and> winmm_state s' = (if r1 = MMSYSERR_NOERROR then p3 else p1)
     \<and> calls (emitted s s') =
         (if r1 = MMSYSERR_NOERROR then
            [MidiOutPrepareHeader (midi_handle s) header r1,
             MidiOutLongMsg (midi_handle s) hdr1 r2,
             MidiOutUnprepareHeader (midi_handle s) hdr2 r3]
          else [MidiOutPrepareHeader (midi_handle s) header r1])"
proof -
  have eq: "midi_send P (Some bs) len s = Some (send_long P bs len s)"
    using assms(1,2) by (simp add: midi_send_def)
  show ?thesis
  proof (cases "r1 = MMSYSERR_NOERROR")
    case False
    define s' where "s' = BOOST_LOG Warning [Text ''MIDI prepare header failed: error '', UInt r1]
        (s\<lparr>winmm_state := p1,
           trace := trace s @ [Call (MidiOutPrepareHeader (midi_handle s) header r1)]\<rparr>)"
    have "send_long P bs len s = (- 1, s')"
      using False assms(4)
      by (simp add: send_long_def midiOutPrepareHeader_def assms(3) [symmetric] s'_def)
    moreover have "midi_handle s' = midi_handle s" "winmm_state s' = p1"
      "calls (emitted s s') = [MidiOutPrepareHeader (midi_handle s) header r1]"
      by (simp_all add: s'_def emitted_def BOOST_LOG_def)
    ultimately show ?thesis
      using False by (simp add: eq)
  next
    case True
    define s0 where "s0 = s\<lparr>winmm_state := p3,
        trace := trace s @ [Call (MidiOutPrepareHeader (midi_handle s) header r1),
                           Call (MidiOutLongMsg (midi_handle s) hdr1 r2),
                           Call (MidiOutUnprepareHeader (midi_handle s) hdr2 r3)]\<rparr>"
    define s' where "s' = (if r2 = MMSYSERR_NOERROR then s0
        else BOOST_LOG Warning [Text ''MIDI long message send failed: error '', UInt r2] s0)"
    have "send_long P bs len s = (if r2 = MMSYSERR_NOERROR then 0 else - 1, s')"
      using True assms(4,5,6)
      by (simp add: send_long_def midiOutPrepareHeader_def midiOutLongMsg_def
          midiOutUnprepareHeader_def assms(3) [symmetric] s'_def s0_def)
    moreover have "midi_handle s' = midi_handle s" "winmm_state s' = p3"
      "calls (emitted s s') = [MidiOutPrepareHeader (midi_handle s) header r1,
             MidiOutLongMsg (midi_handle s) hdr1 r2,
             MidiOutUnprepareHeader (midi_handle s) hdr2 r3]"
      by (simp_all add: s'_def s0_def emitted_def BOOST_LOG_def)
    ultimately show ?thesis
      using True by (simp add: eq)
  qed
qed

theorem midi_send_long_unprepares_once_witness:
  "midi_handle open_state \<noteq> nullptr \<and> 3 < (5 :: nat)
   \<and> sysex_header 0 = \<lparr>lpData = sysex, dwBufferLength = of_nat 5, dwBytesRecorded = of_nat 5,
                          dwFlags = 0\<rparr>
   \<and> winmm_PrepareHeader (simulated_winmm [''Synth''] 0 0 0 11 0) (midi_handle open_state)
        (sysex_header 0) (winmm_state open_state) = ((0, sysex_header 2), 1)
   \<and> winmm_LongMsg (simulated_winmm [''Synth''] 0 0 0 11 0) (midi_handle open_state)
        (sysex_header 2) 1 = ((11, sysex_header 2), 1)
   \<and> winmm_UnprepareHeader (simulated_winmm [''Synth''] 0 0 0 11 0) (midi_handle open_state)
        (sysex_header 2) 1 = ((0, sysex_header 0), 1)
   \<and> (\<exists>s'. midi_send (simulated_winmm [''Synth''] 0 0 0 11 0) (Some sysex) 5 open_state
              = Some (- 1, s')
          \<and> calls (emitted open_state s') =
              [MidiOutPrepareHeader 1 (sysex_header 0) 0,
               MidiOutLongMsg 1 (sysex_header 2) 11,
               MidiOutUnprepareHeader 1 (sysex_header 2) 0])
   \<and> midi_send (simulated_winmm [''Synth''] 0 0 0 11 0) (Some sysex) 5 open_state
       = Some (- 1, \<lparr>midi_handle = 1, winmm_state = 1,
                     trace = [Call (MidiOutPrepareHeader 1 (sysex_header 0) 0),
                              Call (MidiOutLongMsg 1 (sysex_header 2) 11),
                              Call (MidiOutUnprepareHeader 1 (sysex_header 2) 0),
                              Log Warning [Text ''MIDI long message send failed: error '', UInt 11]]\<rparr>)"
proof -
  let ?P = "simulated_winmm [''Synth''] 0 0 0 11 0"
  have h: "midi_handle open_state \<noteq> nullptr"
    by (simp add: open_state_def)
  have m: "midi_handle open_state = 1"
    by (simp add: open_state_def)
  have l: "3 < (5 :: nat)"
    by simp
  have hd: "sysex_header 0 = \<lparr>lpData = sysex, dwBufferLength = of_nat 5, dwBytesRecorded = of_nat 5,
                          dwFlags = 0\<rparr>"
    by (simp add: sysex_header_def)
  have 1: "winmm_PrepareHeader ?P (midi_handle open_state)
        (sysex_header 0) (winmm_state open_state) = ((0, sysex_header 2), 1)"
    by (simp add: simulated_winmm_def open_state_def sysex_header_def)
  have 2: "winmm_LongMsg ?P (midi_handle open_state)
        (sysex_header 2) 1 = ((11, sysex_header 2), 1)"
    by (simp add: simulated_winmm_def)
  have 3: "winmm_UnprepareHeader ?P (midi_handle open_state)
        (sysex_header 2) 1 = ((0, sysex_header 0), 1)"
    by (simp add: simulated_winmm_def sysex_header_def)
  from midi_send_long_unprepares_once [OF h l hd 1 2 3]
  have t: "\<exists>s'. midi_send ?P (Some sysex) 5 open_state = Some (- 1, s')
          \<and> calls (emitted open_state s') =
              [MidiOutPrepareHeader 1 (sysex_header 0) 0,
               MidiOutLongMsg 1 (sysex_header 2) 11,
               MidiOutUnprepareHeader 1 (sysex_header 2) 0]"
    unfolding m by auto
  have f: "midi_send ?P (Some sysex) 5 open_state
       = Some (- 1, \<lparr>midi_handle = 1, winmm_state = 1,
                     trace = [Call (MidiOutPrepareHeader 1 (sysex_header 0) 0),
                              Call (MidiOutLongMsg 1 (sysex_header 2) 11),
                              Call (MidiOutUnprepareHeader 1 (sysex_header 2) 0),
                              Log Warning [Text ''MIDI long message send failed: error '', UInt 11]]\<rparr>)"
    by (simp add: midi_send_def send_long_def midiOutPrepareHeader_def midiOutLongMsg_def
      midiOutUnprepareHeader_def simulated_winmm_def
      open_state_def sysex_def sysex_header_def BOOST_LOG_def)
  from h l hd 1 2 3 t f show ?thesis by blast
qed

text \<open>
  C2 as stated fails where the preparation fails: on a platform whose
  \<open>midiOutPrepareHeader\<close> returns 7, a five-byte payload is prepared, but it is not
  submitted and not un-prepared.
\<close>

theorem midi_send_long_prepare_failure:
  "midi_send (simulated_winmm [''Synth''] 0 0 7 0 0) (Some sysex) 5 open_state
     = Some (- 1, \<lparr>midi_handle = 1, winmm_state = 1,
                   trace = [Call (MidiOutPrepareHeader 1 (sysex_header 0) 7),
                            Log Warning [Text ''MIDI prepare header failed: error '', UInt 7]]\<rparr>)"
  by (simp add: midi_send_def send_long_def midiOutPrepareHeader_def simulated_winmm_def
      open_state_def sysex_def sysex_header_def BOOST_LOG_def)

lemma send_long_emitted:
  obtains (prepare_failed) r1 s' where
      "send_long P bs len s = (- 1, s')" "r1 \<noteq> MMSYSERR_NOERROR"
      "emitted s s' =
         [Call (MidiOutPrepareHeader (midi_handle s)
            \<lparr>lpData = bs, dwBufferLength = of_nat len, dwBytesRecorded = of_nat len, dwFlags = 0\<rparr> r1),
          Log Warning [Text ''MIDI prepare header failed: error '', UInt r1]]"
  | (submitted) hdr1 r2 hdr2 r3 s' where
      "send_long P bs len s = (if r2 = MMSYSERR_NOERROR then 0 else - 1, s')"
      "emitted s s' =
         [Call (MidiOutPrepareHeader (midi_handle s)
            \<lparr>lpData = bs, dwBufferLength = of_nat len, dwBytesRecorded = of_nat len, dwFlags = 0\<rparr>
            MMSYSERR_NOERROR),
          Call (MidiOutLongMsg (midi_handle s) hdr1 r2),
          Call (MidiOutUnprepareHeader (midi_handle s) hdr2 r3)]
         @ (if r2 = MMSYSERR_NOERROR then []
            else [Log Warning [Text ''MIDI long message send failed: error '', UInt r2]])"
proof -
  let ?hdr = "\<lparr>lpData = bs, dwBufferLength = of_nat len, dwBytesRecorded = of_nat len, dwFlags = 0\<rparr>"
  obtain r1 hdr1 p1 where 1: "winmm_PrepareHeader P (midi_handle s) ?hdr (winmm_state s) = ((r1, hdr1), p1)"
    by (metis prod.exhaust)
  obtain r2 hdr2 p2 where 2: "winmm_LongMsg P (midi_handle s) hdr1 p1 = ((r2, hdr2), p2)"
    by (metis prod.exhaust)
  obtain r3 hdr3 p3 where 3: "winmm_UnprepareHeader P (midi_handle s) hdr2 p2 = ((r3, hdr3), p3)"
    by (metis prod.exhaust)
  define s' where "s' = snd (send_long P bs len s)"
  show thesis
  proof (cases "r1 = MMSYSERR_NOERROR")
    case False
    have a: "send_long P bs len s = (- 1, s')"
      using False by (simp add: s'_def send_long_def midiOutPrepareHeader_def 1)
    have b: "emitted s s' =
         [Call (MidiOutPrepareHeader (midi_handle s) ?hdr r1),
          Log Warning [Text ''MIDI prepare header failed: error '', UInt r1]]"
      using False
      by (simp add: s'_def send_long_def midiOutPrepareHeader_def 1 emitted_def BOOST_LOG_def)
    show ?thesis
      by (rule prepare_failed [OF a False b])
  next
    case True
    have "send_long P bs len s = (if r2 = MMSYSERR_NOERROR then 0 else - 1, s')"
      using True
      by (simp add: s'_def send_long_def midiOutPrepareHeader_def midiOutLongMsg_def
          midiOutUnprepareHeader_def 1 2 3)
    moreover have "emitted s s' =
         [Call (MidiOutPrepareHeader (midi_handle s) ?hdr MMSYSERR_NOERROR),
          Call (MidiOutLongMsg (midi_handle s) hdr1 r2),
          Call (MidiOutUnprepareHeader (midi_handle s) hdr2 r3)]
         @ (if r2 = MMSYSERR_NOERROR then []
            else [Log Warning [Text ''MIDI long message send failed: error '', UInt r2]])"
      using True
      by (simp add: s'_def send_long_def midiOutPrepareHeader_def midiOutLongMsg_def
          midiOutUnprepareHeader_def 1 2 3 emitted_def BOOST_LOG_def)
    ultimately show ?thesis
      by (rule submitted)
  qed
qed

lemma midi_send_open_cases:
  assumes "midi_handle s \<noteq> nullptr" and "0 < len" and "midi_send P (Some bs) len s = Some (r, s')"
  obtains (short) msg result where
      "len \<le> 3" "short_msg bs len = Some msg"
      "r = (if result = MMSYSERR_NOERROR then 0 else - 1)"
      "emitted s s' =
         Call (MidiOutShortMsg (midi_handle s) msg result)
         # (if result = MMSYSERR_NOERROR then []
            else [Log Warning [Text ''MIDI short message send failed: error '', UInt result]])"
  | (long) "3 < len" "send_long P bs len s = (r, s')"
proof (cases "len \<le> 3")
  case True
  with assms obtain msg where m: "short_msg bs len = Some msg"
    by (auto simp: midi_send_def split: option.splits)
  obtain result p where p: "winmm_ShortMsg P (midi_handle s) msg (winmm_state s) = (result, p)"
    by (metis prod.exhaust)
  have "r = (if result = MMSYSERR_NOERROR then 0 else - 1)"
    using assms True m p by (auto simp: midi_send_def midiOutShortMsg_def split: if_splits)
  moreover have "emitted s s' =
         Call (MidiOutShortMsg (midi_handle s) msg result)
         # (if result = MMSYSERR_NOERROR then []
            else [Log Warning [Text ''MIDI short message send failed: error '', UInt result]])"
    using assms True m p
    by (auto simp: midi_send_def midiOutShortMsg_def emitted_def BOOST_LOG_def split: if_splits)
  ultimately show ?thesis
    using True m by (intro short)
next
  case False
  with assms show ?thesis
    by (intro long) (simp_all add: midi_send_def)
qed

text \<open>
  C3, as the code has it. A non-zero result code of \<open>midiOutShortMsg\<close>,
  \<open>midiOutPrepareHeader\<close> or \<open>midiOutLongMsg\<close> makes \<open>midi_send\<close> return -1, with a
  warning record that holds the code; the status is 0 or -1; and with a device open and
  a non-empty payload it is 0 when none of these calls failed. The result code of
  \<open>midiOutUnprepareHeader\<close> is not looked at.
\<close>

theorem midi_send_status:
  assumes "midi_send P data len s = Some (r, s')"
  shows "(r = 0 \<or> r = - 1)
     \<and> (send_failures (calls (emitted s s')) \<noteq> [] \<longrightarrow> r = - 1)
     \<and> (\<forall>code \<in> set (send_failures (calls (emitted s s'))).
           code \<noteq> 0 \<and> (\<exists>text. Log Warning [Text text, UInt code] \<in> set (emitted s s')))
     \<and> (midi_handle s \<noteq> nullptr \<and> data \<noteq> None \<and> 0 < len
          \<and> send_failures (calls (emitted s s')) = [] \<longrightarrow> r = 0)"
proof (cases "midi_handle s \<noteq> nullptr \<and> data \<noteq> None \<and> 0 < len")
  case False
  then have "r = - 1 \<and> calls (emitted s s') = []"
    using assms
    by (auto simp: midi_send_def emitted_def BOOST_LOG_def split: option.splits if_splits)
  with False show ?thesis by auto
next
  case True
  then obtain bs where bs: "data = Some bs" by auto
  from True assms have "midi_handle s \<noteq> nullptr" "0 < len" "midi_send P (Some bs) len s = Some (r, s')"
    by (simp_all add: bs)
  then show ?thesis
  proof (cases rule: midi_send_open_cases)
    case (short msg result)
    then show ?thesis by auto
  next
    case long
    show ?thesis
    proof (cases rule: send_long_emitted [of P bs len s])
      case (prepare_failed r1 s1)
      with long show ?thesis by auto
    next
      case (submitted hdr1 r2 hdr2 r3 s1)
      with long show ?thesis by (auto split: if_splits)
    qed
  qed
qed

theorem midi_send_status_witness:
  "midi_send (simulated_winmm [''Synth''] 0 11 0 0 0) (Some [0x90, 0x40, 0x7F]) 3 open_state
     = Some (- 1, \<lparr>midi_handle = 1, winmm_state = 1,
                   trace = [Call (MidiOutShortMsg 1 0x7F4090 11),
                            Log Warning [Text ''MIDI short message send failed: error '',
                                         UInt 11]]\<rparr>)
   \<and> send_failures (calls (emitted open_state
         \<lparr>midi_handle = 1, winmm_state = 1,
          trace = [Call (MidiOutShortMsg 1 0x7F4090 11),
                   Log Warning [Text ''MIDI short message send failed: error '', UInt 11]]\<rparr>))
       = [11]"
proof -
  have a: "midi_send (simulated_winmm [''Synth''] 0 11 0 0 0) (Some [0x90, 0x40, 0x7F]) 3 open_state
     = Some (- 1, \<lparr>midi_handle = 1, winmm_state = 1,
                   trace = [Call (MidiOutShortMsg 1 0x7F4090 11),
                            Log Warning [Text ''MIDI short message send failed: error '',
                                         UInt 11]]\<rparr>)"
    by (simp add: midi_send_def short_msg_def read_u8_def midiOutShortMsg_def
        simulated_winmm_def open_state_def BOOST_LOG_def)
  note midi_send_status [OF a]
  moreover have "send_failures (calls (emitted open_state
         \<lparr>midi_handle = 1, winmm_state = 1,
          trace = [Call (MidiOutShortMsg 1 0x7F4090 11),
                   Log Warning [Text ''MIDI short message send failed: error '', UInt 11]]\<rparr>))
       = [11]"
    by (simp add: emitted_def open_state_def)
  ultimately show ?thesis
    using a by blast
qed

text \<open>
  C3 as stated fails for the un-prepare call: on a platform whose
  \<open>midiOutUnprepareHeader\<close> returns 65 while the other calls succeed, \<open>midi_send\<close>
  returns 0 and logs nothing.
\<close>

theorem midi_send_unprepare_failure_unreported:
  "midi_send (simulated_winmm [''Synth''] 0 0 0 0 65) (Some sysex) 5 open_state
     = Some (0, \<lparr>midi_handle = 1, winmm_state = 1,
                  trace = [Call (MidiOutPrepareHeader 1 (sysex_header 0) 0),
                           Call (MidiOutLongMsg 1 (sysex_header 2) 0),
                           Call (MidiOutUnprepareHeader 1 (sysex_header 2) 65)]\<rparr>)"
  by (simp add: midi_send_def send_long_def midiOutPrepareHeader_def midiOutLongMsg_def
      midiOutUnprepareHeader_def simulated_winmm_def
      open_state_def sysex_def sysex_header_def BOOST_LOG_def)

subsection \<open>Effects of the calls\<close>

lemma BOOST_LOG_simps [simp]:
  "midi_handle (BOOST_LOG lvl items s) = midi_handle s"
  "winmm_state (BOOST_LOG lvl items s) = winmm_state s"
  "trace (BOOST_LOG lvl items s) = trace s @ [Log lvl items]"
  by (simp_all add: BOOST_LOG_def)

lemma midiOutGetNumDevs_effect:
  assumes "midiOutGetNumDevs P s = (n, s')"
  shows "midi_handle s' = midi_handle s" "trace s' = trace s @ [Call (MidiOutGetNumDevs n)]"
    "winmm_GetNumDevs P (winmm_state s) = (n, winmm_state s')"
  using assms by (auto simp: midiOutGetNumDevs_def split: prod.splits)

lemma midiOutGetDevCapsW_effect:
  assumes "midiOutGetDevCapsW P i s = ((r, nm), s')"
  shows "midi_handle s' = midi_handle s" "trace s' = trace s @ [Call (MidiOutGetDevCapsW i r nm)]"
  using assms by (auto simp: midiOutGetDevCapsW_def split: prod.splits)

lemma list_devices_loop_effect:
  assumes "list_devices_loop P i n ds s = (devices, s')"
  shows "midi_handle s' = midi_handle s \<and> (\<exists>evs. trace s' = trace s @ evs \<and> list_all enum_event evs)"
  using assms
proof (induction P i n ds s rule: list_devices_loop.induct)
  case (1 P i num_devs ds s)
  show ?case
  proof (cases "i < num_devs")
    case False
    with "1.prems" show ?thesis by simp
  next
    case True
    obtain r nm s1 where c: "midiOutGetDevCapsW P i s = ((r, nm), s1)"
      by (metis prod.exhaust)
    let ?ds = "if r = MMSYSERR_NOERROR then ds @ [\<lparr>dev_id = sint i, dev_name = nm\<rparr>] else ds"
    from "1.prems" True c have "list_devices_loop P (i + 1) num_devs ?ds s1 = (devices, s')"
      by simp
    from "1.IH" [OF True c [symmetric] refl this]
    obtain evs where "midi_handle s' = midi_handle s1" "trace s' = trace s1 @ evs" "list_all enum_event evs"
      by blast
    with midiOutGetDevCapsW_effect [OF c] show ?thesis
      by simp
  qed
qed

lemma midi_list_devices_effect:
  assumes "midi_list_devices P s = (devices, s')"
  shows "midi_handle s' = midi_handle s \<and> (\<exists>evs. trace s' = trace s @ evs \<and> list_all enum_event evs)"
proof -
  obtain n s1 where g: "midiOutGetNumDevs P s = (n, s1)"
    by (metis prod.exhaust)
  with assms have "list_devices_loop P 0 n [] s1 = (devices, s')"
    by (simp add: midi_list_devices_def)
  from list_devices_loop_effect [OF this] midiOutGetNumDevs_effect [OF g]
  show ?thesis by auto
qed

lemma find_device_loop_effect:
  assumes "find_device_loop device_name devices d0 s = (d, found, s')"
  shows "midi_handle s' = midi_handle s \<and> winmm_state s' = winmm_state s
     \<and> (\<exists>evs. trace s' = trace s @ evs \<and> list_all enum_event evs \<and> calls evs = [])
     \<and> d = (case find (\<lambda>dev. dev_name dev = device_name) devices of
              None \<Rightarrow> d0 | Some dev \<Rightarrow> word_of_int (dev_id dev))
     \<and> found = (find (\<lambda>dev. dev_name dev = device_name) devices \<noteq> None)"
  using assms
  by (induction devices) (auto split: if_splits)

lemma emitted_append: "trace s' = trace s @ evs \<Longrightarrow> emitted s s' = evs"
  by (simp add: emitted_def)

lemma open_attempts_append: "open_attempts (xs @ ys) = open_attempts xs @ open_attempts ys"
  by (induction xs rule: open_attempts.induct) simp_all

lemma caps_queries_append: "caps_queries (xs @ ys) = caps_queries xs @ caps_queries ys"
  by (induction xs rule: caps_queries.induct) simp_all

lemma numdevs_reports_append: "numdevs_reports (xs @ ys) = numdevs_reports xs @ numdevs_reports ys"
  by (induction xs rule: numdevs_reports.induct) simp_all

lemma calls_enum_no_open: "list_all enum_event evs \<Longrightarrow> open_attempts (calls evs) = []"
  by (induction evs rule: calls.induct) (auto elim: enum_event.elims)

lemma midi_close_closed: "midi_handle s = nullptr \<Longrightarrow> midi_close P s = s"
  by (simp add: midi_close_def)

lemma midi_close_open:
  assumes "midi_handle s \<noteq> nullptr"
  shows "\<exists>r1 r2. trace (midi_close P s) =
           trace s @ [Call (MidiOutReset (midi_handle s) r1), Call (MidiOutClose (midi_handle s) r2),
                      Log Debug [Text ''Closed MIDI output device'']]"
    and "midi_handle (midi_close P s) = nullptr"
  using assms
  by (auto simp: midi_close_def midiOutReset_def midiOutClose_def split: prod.splits)

lemma midi_close_handle: "midi_handle (midi_close P s) = nullptr"
  by (cases "midi_handle s = nullptr") (simp_all add: midi_close_closed midi_close_open)

lemma midi_close_trace:
  obtains evs where "trace (midi_close P s) = trace s @ evs"
    "open_attempts (calls evs) = []" "caps_queries (calls evs) = []" "numdevs_reports (calls evs) = []"
proof (cases "midi_handle s = nullptr")
  case True
  show ?thesis
    by (rule that [of "[]"]) (simp_all add: midi_close_closed True)
next
  case False
  from midi_close_open(1) [OF False, of P] obtain r1 r2 where
    "trace (midi_close P s) =
       trace s @ [Call (MidiOutReset (midi_handle s) r1), Call (MidiOutClose (midi_handle s) r2),
                  Log Debug [Text ''Closed MIDI output device'']]"
    by blast
  then show ?thesis
    by (rule that) simp_all
qed

lemma select_device_default:
  "device_name = ''auto'' \<or> device_name = [] \<Longrightarrow> select_device P device_name s = (0, s)"
  by (auto simp: select_device_def)

lemma select_device_named:
  assumes "device_name \<noteq> ''auto''" and "device_name \<noteq> []"
    and "midi_list_devices P s = (devices, sa)"
  shows "\<exists>s' logs. select_device P device_name s =
            (case find (\<lambda>dev. dev_name dev = device_name) devices of
               None \<Rightarrow> 0 | Some dev \<Rightarrow> word_of_int (dev_id dev), s')
         \<and> midi_handle s' = midi_handle sa \<and> winmm_state s' = winmm_state sa
         \<and> trace s' = trace sa @ logs \<and> list_all enum_event logs \<and> calls logs = []
         \<and> (find (\<lambda>dev. dev_name dev = device_name) devices = None \<longrightarrow>
               Log Warning [Text (''MIDI device '' @ [CHR 0x27]), Text device_name,
                            Text (CHR 0x27 # '' not found, using default'')] \<in> set logs)"
proof -
  obtain d found sb where f: "find_device_loop device_name devices 0 sa = (d, found, sb)"
    by (metis prod.exhaust)
  from find_device_loop_effect [OF f] obtain evs where
    e: "midi_handle sb = midi_handle sa" "winmm_state sb = winmm_state sa" "trace sb = trace sa @ evs"
      "list_all enum_event evs" "calls evs = []"
      "d = (case find (\<lambda>dev. dev_name dev = device_name) devices of
              None \<Rightarrow> 0 | Some dev \<Rightarrow> word_of_int (dev_id dev))"
      "found = (find (\<lambda>dev. dev_name dev = device_name) devices \<noteq> None)"
    by blast
  show ?thesis
  proof (cases found)
    case True
    with assms f e show ?thesis
      by (auto simp: select_device_def)
  next
    case False
    with assms f e show ?thesis
      by (auto simp: select_device_def calls_append)
  qed
qed

lemma select_device_effect:
  assumes "select_device P device_name s = (d, s')"
  shows "midi_handle s' = midi_handle s \<and> (\<exists>evs. trace s' = trace s @ evs \<and> list_all enum_event evs)"
proof (cases "device_name \<noteq> ''auto'' \<and> device_name \<noteq> []")
  case False
  with assms show ?thesis
    by (auto simp: select_device_default)
next
  case True
  obtain devices sa where l: "midi_list_devices P s = (devices, sa)"
    by (metis prod.exhaust)
  from select_device_named [OF _ _ l, of device_name] True assms
  obtain logs where "midi_handle s' = midi_handle sa" "trace s' = trace sa @ logs" "list_all enum_event logs"
    by auto
  with midi_list_devices_effect [OF l] show ?thesis
    by auto
qed

lemma open_device_effect:
  assumes "winmm_GetNumDevs P (winmm_state s) = (n, p1)"
  shows "n = 0 \<Longrightarrow> open_device P d s =
           (- 1, BOOST_LOG Warning [Text ''No MIDI output devices available'']
                   (s\<lparr>winmm_state := p1, trace := trace s @ [Call (MidiOutGetNumDevs 0)]\<rparr>))"
    and "n \<noteq> 0 \<Longrightarrow> winmm_Open P d p1 = ((result, h), p2) \<Longrightarrow>
         \<exists>s'. open_device P d s = (if result = MMSYSERR_NOERROR then 0 else - 1, s')
           \<and> midi_handle s' = (if result = MMSYSERR_NOERROR then h else nullptr)
           \<and> winmm_state s' = p2
           \<and> trace s' = trace s @ [Call (MidiOutGetNumDevs n), Call (MidiOutOpen d result h),
                if result = MMSYSERR_NOERROR
                then Log Info [Text ''Opened MIDI output device '', UInt d]
                else Log Error [Text ''Failed to open MIDI device: error '', UInt result]]"
  using assms
  by (auto simp: open_device_def midiOutGetNumDevs_def midiOutOpen_def)

lemma open_device_cases:
  fixes P :: "'p winmm" and d :: UINT and s :: "'p state"
  defines "s' \<equiv> snd (open_device P d s)"
  obtains (none) p1 where
      "winmm_GetNumDevs P (winmm_state s) = (0, p1)"
      "fst (open_device P d s) = - 1" "midi_handle s' = midi_handle s"
      "trace s' = trace s @ [Call (MidiOutGetNumDevs 0),
                             Log Warning [Text ''No MIDI output devices available'']]"
  | (attempt) n p1 result h p2 where
      "n \<noteq> 0" "winmm_GetNumDevs P (winmm_state s) = (n, p1)"
      "winmm_Open P d p1 = ((result, h), p2)"
      "fst (open_device P d s) = (if result = MMSYSERR_NOERROR then 0 else - 1)"
      "midi_handle s' = (if result = MMSYSERR_NOERROR then h else nullptr)"
      "trace s' = trace s @ [Call (MidiOutGetNumDevs n), Call (MidiOutOpen d result h),
                if result = MMSYSERR_NOERROR
                then Log Info [Text ''Opened MIDI output device '', UInt d]
                else Log Error [Text ''Failed to open MIDI device: error '', UInt result]]"
proof -
  obtain n p1 where g: "winmm_GetNumDevs P (winmm_state s) = (n, p1)"
    by (metis prod.exhaust)
  show thesis
  proof (cases "n = 0")
    case True
    from open_device_effect(1) [OF g True, of d] g True show ?thesis
      by (intro none [of p1]) (simp_all add: s'_def)
  next
    case False
    obtain result h p2 where o: "winmm_Open P d p1 = ((result, h), p2)"
      by (metis prod.exhaust)
    from open_device_effect(2) [OF g False o] show ?thesis
      by (intro attempt [OF False g o]) (auto simp: s'_def)
  qed
qed

lemma midi_open_steps:
  "midi_open P device_name s =
     open_device P (fst (select_device P device_name (midi_close P s)))
       (snd (select_device P device_name (midi_close P s)))"
  by (simp add: midi_open_def midi_close_closed split: prod.splits)

text \<open>Running the simulated platform.\<close>

lemmas run_simulated =
  midi_open_def select_device_def open_device_def midi_close_def midi_list_devices_def
  midiOutGetNumDevs_def midiOutGetDevCapsW_def midiOutOpen_def midiOutReset_def midiOutClose_def
  BOOST_LOG_def simulated_winmm_def two_synths_def initial_state_def open_state_def Let_def

lemma two_synths_enumerated:
  "midi_list_devices two_synths (midi_close two_synths (initial_state 0))
     = ([\<lparr>dev_id = 0, dev_name = ''Synth A''\<rparr>, \<lparr>dev_id = 1, dev_name = ''Synth B''\<rparr>], enumerated)"
  by (simp add: run_simulated enumerated_def)

lemma two_opens_trace:
  "two_opens = \<lparr>midi_handle = 2, winmm_state = 2,
      trace = [Call (MidiOutGetNumDevs 2),
               Call (MidiOutGetDevCapsW 0 0 ''Synth A''),
               Call (MidiOutGetDevCapsW 1 0 ''Synth B''),
               Log Info [Text (''Found MIDI device '' @ [CHR 0x27]), Text ''Synth A'',
                         Text (CHR 0x27 # '' at index ''), UInt 0],
               Call (MidiOutGetNumDevs 2),
               Call (MidiOutOpen 0 0 1),
               Log Info [Text ''Opened MIDI output device '', UInt 0],
               Call (MidiOutReset 1 0),
               Call (MidiOutClose 1 0),
               Log Debug [Text ''Closed MIDI output device''],
               Call (MidiOutGetNumDevs 2),
               Call (MidiOutGetDevCapsW 0 0 ''Synth A''),
               Call (MidiOutGetDevCapsW 1 0 ''Synth B''),
               Log Info [Text (''Found MIDI device '' @ [CHR 0x27]), Text ''Synth B'',
                         Text (CHR 0x27 # '' at index ''), UInt 1],
               Call (MidiOutGetNumDevs 2),
               Call (MidiOutOpen 1 0 2),
               Log Info [Text ''Opened MIDI output device '', UInt 1]]\<rparr>"
  by (simp add: two_opens_def run_simulated)

subsection \<open>Opening\<close>

text \<open>
  C6. When the platform answers 0 to the \<open>midiOutGetNumDevs\<close> call of line 96 (made in
  the state the device selection leaves), \<open>midi_open\<close> returns -1 and has not called
  \<open>midiOutOpen\<close>, for every device name and every state.
\<close>

theorem midi_open_no_devices:
  assumes "fst (winmm_GetNumDevs P (winmm_state (snd (select_device P device_name (midi_close P s))))) = 0"
  shows "fst (midi_open P device_name s) = - 1
     \<and> open_attempts (calls (emitted s (snd (midi_open P device_name s)))) = []"
proof -
  obtain d s1 where sel: "select_device P device_name (midi_close P s) = (d, s1)"
    by (metis prod.exhaust)
  obtain evs0 where e0: "trace (midi_close P s) = trace s @ evs0" "open_attempts (calls evs0) = []"
    by (rule midi_close_trace)
  from select_device_effect [OF sel] obtain evs1 where
    e1: "trace s1 = trace (midi_close P s) @ evs1" "list_all enum_event evs1"
    by blast
  have o: "midi_open P device_name s = open_device P d s1"
    by (simp add: midi_open_steps sel)
  from assms sel have z: "fst (winmm_GetNumDevs P (winmm_state s1)) = 0"
    by simp
  show ?thesis
  proof (cases rule: open_device_cases [of P s1 d])
    case (none p1)
    then have "emitted s (snd (midi_open P device_name s)) =
        evs0 @ evs1 @ [Call (MidiOutGetNumDevs 0), Log Warning [Text ''No MIDI output devices available'']]"
      by (simp add: o e0 e1 emitted_append)
    with none e0 e1 show ?thesis
      by (simp add: o calls_append open_attempts_append calls_enum_no_open)
  next
    case (attempt n p1 result h p2)
    with z show ?thesis by simp
  qed
qed

theorem midi_open_no_devices_witness:
  "fst (winmm_GetNumDevs (simulated_winmm [] 0 0 0 0 0)
      (winmm_state (snd (select_device (simulated_winmm [] 0 0 0 0 0) ''Synth A''
          (midi_close (simulated_winmm [] 0 0 0 0 0) open_state))))) = 0
   \<and> fst (midi_open (simulated_winmm [] 0 0 0 0 0) ''Synth A'' open_state) = - 1
   \<and> open_attempts (calls (emitted open_state
         (snd (midi_open (simulated_winmm [] 0 0 0 0 0) ''Synth A'' open_state)))) = []"
proof -
  have h: "fst (winmm_GetNumDevs (simulated_winmm [] 0 0 0 0 0)
      (winmm_state (snd (select_device (simulated_winmm [] 0 0 0 0 0) ''Synth A''
          (midi_close (simulated_winmm [] 0 0 0 0 0) open_state))))) = 0"
    by (simp add: simulated_winmm_def)
  from midi_open_no_devices [OF h] h show ?thesis by blast
qed

text \<open>
  C7. Let the name be neither \<open>"auto"\<close> nor empty, let \<open>devices\<close> be what
  \<open>midi_list_devices\<close> returns after the handle is closed, and let the platform report
  a non-zero device count at line 96. Then the events of \<open>midi_open\<close> contain those of
  the enumeration; its only \<open>midiOutOpen\<close> call is for the id of the first device of
  \<open>devices\<close> with that name, or for 0 when there is none; in that case the warning is
  logged; and the result is 0 when the platform's open succeeds, -1 otherwise.
\<close>

theorem midi_open_by_name:
  assumes "device_name \<noteq> ''auto''" and "device_name \<noteq> []"
    and "midi_list_devices P (midi_close P s) = (devices, sa)"
    and "winmm_GetNumDevs P (winmm_state sa) = (n, p1)" and "n \<noteq> 0"
    and "device_id = (case find (\<lambda>dev. dev_name dev = device_name) devices of
                        None \<Rightarrow> 0 | Some dev \<Rightarrow> word_of_int (dev_id dev))"
    and "winmm_Open P device_id p1 = ((result, h), p2)"
  shows "fst (midi_open P device_name s) = (if result = MMSYSERR_NOERROR then 0 else - 1)
     \<and> (\<exists>before after. emitted s (snd (midi_open P device_name s))
            = before @ emitted (midi_close P s) sa @ after)
     \<and> open_attempts (calls (emitted s (snd (midi_open P device_name s)))) = [device_id]
     \<and> MidiOutOpen device_id result h \<in> set (calls (emitted s (snd (midi_open P device_name s))))
     \<and> (find (\<lambda>dev. dev_name dev = device_name) devices = None \<longrightarrow>
           device_id = 0
         \<and> Log Warning [Text (''MIDI device '' @ [CHR 0x27]), Text device_name,
                         Text (CHR 0x27 # '' not found, using default'')]
             \<in> set (emitted s (snd (midi_open P device_name s))))"
proof -
  let ?s' = "snd (midi_open P device_name s)"
  let ?warning = "Log Warning [Text (''MIDI device '' @ [CHR 0x27]), Text device_name,
                         Text (CHR 0x27 # '' not found, using default'')]"
  obtain evs0 where e0: "trace (midi_close P s) = trace s @ evs0" "open_attempts (calls evs0) = []"
    by (rule midi_close_trace)
  from midi_list_devices_effect [OF assms(3)] obtain enum where
    en: "trace sa = trace (midi_close P s) @ enum" "list_all enum_event enum"
    by blast
  from select_device_named [OF assms(1-3)] assms(6) obtain s1 logs where
    sel: "select_device P device_name (midi_close P s) = (device_id, s1)"
    and s1: "winmm_state s1 = winmm_state sa" "trace s1 = trace sa @ logs" "calls logs = []"
    and w: "find (\<lambda>dev. dev_name dev = device_name) devices = None \<longrightarrow> ?warning \<in> set logs"
    by auto
  have o: "midi_open P device_name s = open_device P device_id s1"
    by (simp add: midi_open_steps sel)
  from open_device_effect(2) [of P s1 n p1 device_id result h p2] assms(4,5,7) s1(1)
  obtain s' where r: "open_device P device_id s1 = (if result = MMSYSERR_NOERROR then 0 else - 1, s')"
    and tr: "trace s' = trace s1 @ [Call (MidiOutGetNumDevs n), Call (MidiOutOpen device_id result h),
                if result = MMSYSERR_NOERROR
                then Log Info [Text ''Opened MIDI output device '', UInt device_id]
                else Log Error [Text ''Failed to open MIDI device: error '', UInt result]]"
    by auto
  let ?tail = "[Call (MidiOutGetNumDevs n), Call (MidiOutOpen device_id result h),
                if result = MMSYSERR_NOERROR
                then Log Info [Text ''Opened MIDI output device '', UInt device_id]
                else Log Error [Text ''Failed to open MIDI device: error '', UInt result]]"
  have em: "emitted s ?s' = evs0 @ enum @ logs @ ?tail"
    by (simp add: o r tr s1 en e0 emitted_append)
  have en': "emitted (midi_close P s) sa = enum"
    by (simp add: en emitted_append)
  have 1: "fst (midi_open P device_name s) = (if result = MMSYSERR_NOERROR then 0 else - 1)"
    by (simp add: o r)
  have 2: "\<exists>before after. emitted s ?s' = before @ emitted (midi_close P s) sa @ after"
    unfolding em en' by blast
  have 3: "open_attempts (calls (emitted s ?s')) = [device_id]"
    by (simp add: em calls_append open_attempts_append e0 s1 calls_enum_no_open en)
  have 4: "MidiOutOpen device_id result h \<in> set (calls (emitted s ?s'))"
    by (simp add: em calls_append)
  have 5: "find (\<lambda>dev. dev_name dev = device_name) devices = None \<longrightarrow>
           device_id = 0 \<and> ?warning \<in> set (emitted s ?s')"
    using w assms(6) by (auto simp: em)
  from 1 2 3 4 5 show ?thesis by blast
qed

theorem midi_open_by_name_witness:
  "midi_list_devices two_synths (midi_close two_synths (initial_state 0))
     = ([\<lparr>dev_id = 0, dev_name = ''Synth A''\<rparr>, \<lparr>dev_id = 1, dev_name = ''Synth B''\<rparr>], enumerated)
   \<and> fst (midi_open two_synths ''NonexistentDeviceXYZ'' (initial_state 0)) = 0
   \<and> open_attempts (calls (emitted (initial_state 0)
         (snd (midi_open two_synths ''NonexistentDeviceXYZ'' (initial_state 0))))) = [0]
   \<and> Log Warning [Text (''MIDI device '' @ [CHR 0x27]), Text ''NonexistentDeviceXYZ'',
                   Text (CHR 0x27 # '' not found, using default'')]
       \<in> set (emitted (initial_state 0)
           (snd (midi_open two_synths ''NonexistentDeviceXYZ'' (initial_state 0))))"
proof -
  have 1: "''NonexistentDeviceXYZ'' \<noteq> ''auto''" and 2: "''NonexistentDeviceXYZ'' \<noteq> []"
    by simp_all
  have 4: "winmm_GetNumDevs two_synths (winmm_state enumerated) = (2, 0)"
    by (simp add: two_synths_def simulated_winmm_def enumerated_def)
  have 5: "(2 :: UINT) \<noteq> 0"
    by simp
  have 6: "(0 :: UINT) = (case find (\<lambda>dev. dev_name dev = ''NonexistentDeviceXYZ'')
        [\<lparr>dev_id = 0, dev_name = ''Synth A''\<rparr>, \<lparr>dev_id = 1, dev_name = ''Synth B''\<rparr>] of
      None \<Rightarrow> 0 | Some dev \<Rightarrow> word_of_int (dev_id dev))"
    by simp
  have 7: "winmm_Open two_synths 0 0 = ((0, 1), 1)"
    by (simp add: two_synths_def simulated_winmm_def)
  from midi_open_by_name [OF 1 2 two_synths_enumerated 4 5 6 7] two_synths_enumerated
  show ?thesis by simp
qed

text \<open>
  C8. \<open>midi_open("auto")\<close> and \<open>midi_open("")\<close> return the same result and the same
  state. Neither enumerates: there is no \<open>midiOutGetDevCapsW\<close> call, the one
  \<open>midiOutGetNumDevs\<close> call is the check of line 96, and a \<open>midiOutOpen\<close> call, if
  any, is for device 0.
\<close>

theorem midi_open_auto_equals_empty:
  "midi_open P ''auto'' s = midi_open P [] s
   \<and> caps_queries (calls (emitted s (snd (midi_open P ''auto'' s)))) = []
   \<and> length (numdevs_reports (calls (emitted s (snd (midi_open P ''auto'' s))))) = 1
   \<and> set (open_attempts (calls (emitted s (snd (midi_open P ''auto'' s))))) \<subseteq> {0}"
proof -
  let ?s' = "snd (midi_open P ''auto'' s)"
  have a: "midi_open P ''auto'' s = open_device P 0 (midi_close P s)"
    by (simp add: midi_open_steps select_device_default)
  have b: "midi_open P [] s = open_device P 0 (midi_close P s)"
    by (simp add: midi_open_steps select_device_default)
  obtain evs0 where e0: "trace (midi_close P s) = trace s @ evs0"
    "open_attempts (calls evs0) = []" "caps_queries (calls evs0) = []"
    "numdevs_reports (calls evs0) = []"
    by (rule midi_close_trace)
  have "caps_queries (calls (emitted s ?s')) = []
      \<and> length (numdevs_reports (calls (emitted s ?s'))) = 1
      \<and> set (open_attempts (calls (emitted s ?s'))) \<subseteq> {0}"
  proof (cases rule: open_device_cases [of P "midi_close P s" 0])
    case (none p1)
    then have "emitted s ?s' = evs0 @ [Call (MidiOutGetNumDevs 0),
                             Log Warning [Text ''No MIDI output devices available'']]"
      by (simp add: a e0 emitted_append)
    with e0 show ?thesis
      by (simp add: calls_append caps_queries_append numdevs_reports_append open_attempts_append)
  next
    case (attempt n p1 result h p2)
    then have "emitted s ?s' = evs0 @ [Call (MidiOutGetNumDevs n), Call (MidiOutOpen 0 result h),
                if result = MMSYSERR_NOERROR
                then Log Info [Text ''Opened MIDI output device '', UInt 0]
                else Log Error [Text ''Failed to open MIDI device: error '', UInt result]]"
      by (simp add: a e0 emitted_append)
    with e0 show ?thesis
      by (simp add: calls_append caps_queries_append numdevs_reports_append open_attempts_append)
  qed
  with a b show ?thesis by simp
qed

theorem midi_open_auto_equals_empty_witness:
  "midi_open two_synths ''auto'' (initial_state 0)
     = (0, \<lparr>midi_handle = 1, winmm_state = 1,
            trace = [Call (MidiOutGetNumDevs 2), Call (MidiOutOpen 0 0 1),
                     Log Info [Text ''Opened MIDI output device '', UInt 0]]\<rparr>)
   \<and> midi_open two_synths ''auto'' (initial_state 0) = midi_open two_synths [] (initial_state 0)
   \<and> caps_queries (calls (emitted (initial_state 0)
        (snd (midi_open two_synths ''auto'' (initial_state 0))))) = []"
proof -
  have "midi_open two_synths ''auto'' (initial_state 0)
     = (0, \<lparr>midi_handle = 1, winmm_state = 1,
            trace = [Call (MidiOutGetNumDevs 2), Call (MidiOutOpen 0 0 1),
                     Log Info [Text ''Opened MIDI output device '', UInt 0]]\<rparr>)"
    by (simp add: run_simulated)
  with midi_open_auto_equals_empty [of two_synths "initial_state 0"] show ?thesis
    by blast
qed

subsection \<open>At most one handle\<close>

lemma ok_from_append:
  "ok_from L (xs @ ys) \<longleftrightarrow> ok_from L xs \<and> ok_from (foldl live_step L xs) ys"
  by (induction xs arbitrary: L) (auto, (cases ys; simp)+)

lemma ok_from_take: "ok_from L tr \<Longrightarrow> length (foldl live_step L (take n tr)) \<le> 1"
proof (induction tr arbitrary: L n)
  case Nil
  then show ?case by simp
next
  case (Cons e es)
  then show ?case by (cases n) simp_all
qed

lemma quiet_events:
  assumes "list_all (\<lambda>e. \<not> handle_call e) evs"
  shows "foldl live_step L evs = L" and "ok_from L evs \<longleftrightarrow> length L \<le> 1"
  using assms
  by (induction evs arbitrary: L) (auto elim: handle_call.elims live_step.elims)

lemma enum_quiet: "list_all enum_event evs \<Longrightarrow> list_all (\<lambda>e. \<not> handle_call e) evs"
  by (induction evs) (auto elim: enum_event.elims)

lemma one_handle_quiet:
  assumes "one_handle s" and "trace s' = trace s @ evs" and "list_all (\<lambda>e. \<not> handle_call e) evs"
    and "midi_handle s' = midi_handle s"
  shows "one_handle s'"
  using assms by (auto simp: one_handle_def ok_from_append quiet_events)

lemma one_handle_log: "one_handle s \<Longrightarrow> one_handle (BOOST_LOG lvl items s)"
  by (rule one_handle_quiet [where evs = "[Log lvl items]"]) simp_all

lemma one_handle_close:
  assumes "one_handle s"
  shows "one_handle (midi_close P s)"
proof (cases "midi_handle s = nullptr")
  case True
  with assms show ?thesis by (simp add: midi_close_closed)
next
  case False
  from midi_close_open [OF False, of P] obtain r1 r2 where
    "trace (midi_close P s) =
       trace s @ [Call (MidiOutReset (midi_handle s) r1), Call (MidiOutClose (midi_handle s) r2),
                  Log Debug [Text ''Closed MIDI output device'']]"
    and "midi_handle (midi_close P s) = nullptr"
    by blast
  with assms False show ?thesis
    by (simp add: one_handle_def ok_from_append)
qed

lemma one_handle_list_devices:
  assumes "one_handle s"
  shows "one_handle (snd (midi_list_devices P s))"
proof -
  obtain devices s' where l: "midi_list_devices P s = (devices, s')"
    by (metis prod.exhaust)
  from midi_list_devices_effect [OF l] obtain evs where
    "midi_handle s' = midi_handle s" "trace s' = trace s @ evs" "list_all enum_event evs"
    by blast
  with assms show ?thesis
    by (simp add: l one_handle_quiet [of s s' evs] enum_quiet)
qed

lemma one_handle_open_device:
  assumes "one_handle s" and "midi_handle s = nullptr"
  shows "one_handle (snd (open_device P d s))"
proof (cases rule: open_device_cases [of P s d])
  case (none p1)
  have "list_all (\<lambda>e. \<not> handle_call e)
      [Call (MidiOutGetNumDevs 0), Log Warning [Text ''No MIDI output devices available'']]"
    by simp
  from one_handle_quiet [OF assms(1) none(4) this none(3)] show ?thesis .
next
  case (attempt n p1 result h p2)
  from assms have a: "ok_from [] (trace s)" "foldl live_step [] (trace s) = []"
    by (simp_all add: one_handle_def)
  let ?L = "if result = MMSYSERR_NOERROR \<and> h \<noteq> nullptr then [h] else []"
  let ?log = "if result = MMSYSERR_NOERROR
                then Log Info [Text ''Opened MIDI output device '', UInt d]
                else Log Error [Text ''Failed to open MIDI device: error '', UInt result]"
  have q: "live_step L ?log = L" for L
    by simp
  have f: "foldl live_step [] (trace (snd (open_device P d s))) = ?L"
    unfolding attempt(6) foldl_append a(2) by (simp only: foldl.simps live_step.simps q append_Nil)
  have "ok_from [] [Call (MidiOutGetNumDevs n), Call (MidiOutOpen d result h), ?log]"
    by (simp only: ok_from.simps live_step.simps q) simp
  then have o: "ok_from [] (trace (snd (open_device P d s)))"
    unfolding attempt(6) ok_from_append a(2) using a(1) by simp
  have "?L = (if midi_handle (snd (open_device P d s)) = nullptr then []
              else [midi_handle (snd (open_device P d s))])"
    unfolding attempt(5) by simp
  with f o show ?thesis
    unfolding one_handle_def by simp
qed

lemma one_handle_open:
  assumes "one_handle s"
  shows "one_handle (snd (midi_open P device_name s))"
proof -
  obtain d s1 where sel: "select_device P device_name (midi_close P s) = (d, s1)"
    by (metis prod.exhaust)
  from select_device_effect [OF sel] obtain evs where
    e: "midi_handle s1 = midi_handle (midi_close P s)" "trace s1 = trace (midi_close P s) @ evs"
      "list_all enum_event evs"
    by blast
  have "one_handle s1"
    using one_handle_close [OF assms, of P] e
    by (intro one_handle_quiet [of "midi_close P s" s1 evs]) (simp_all add: enum_quiet)
  moreover have "midi_handle s1 = nullptr"
    by (simp add: e midi_close_handle)
  ultimately show ?thesis
    by (simp add: midi_open_steps sel one_handle_open_device)
qed

lemma send_long_quiet:
  assumes "send_long P bs len s = (r, s')"
  shows "midi_handle s' = midi_handle s
     \<and> (\<exists>evs. trace s' = trace s @ evs \<and> list_all (\<lambda>e. \<not> handle_call e) evs)"
proof -
  let ?hdr = "\<lparr>lpData = bs, dwBufferLength = of_nat len, dwBytesRecorded = of_nat len, dwFlags = 0\<rparr>"
  obtain r1 hdr1 p1 where 1: "winmm_PrepareHeader P (midi_handle s) ?hdr (winmm_state s) = ((r1, hdr1), p1)"
    by (metis prod.exhaust)
  obtain r2 hdr2 p2 where 2: "winmm_LongMsg P (midi_handle s) hdr1 p1 = ((r2, hdr2), p2)"
    by (metis prod.exhaust)
  obtain r3 hdr3 p3 where 3: "winmm_UnprepareHeader P (midi_handle s) hdr2 p2 = ((r3, hdr3), p3)"
    by (metis prod.exhaust)
  show ?thesis
  proof (cases "r1 = MMSYSERR_NOERROR")
    case False
    with assms have "s' = BOOST_LOG Warning [Text ''MIDI prepare header failed: error '', UInt r1]
        (s\<lparr>winmm_state := p1, trace := trace s @ [Call (MidiOutPrepareHeader (midi_handle s) ?hdr r1)]\<rparr>)"
      by (simp add: send_long_def midiOutPrepareHeader_def 1)
    then show ?thesis by simp
  next
    case True
    with assms have "s' = (if r2 = MMSYSERR_NOERROR then id
          else BOOST_LOG Warning [Text ''MIDI long message send failed: error '', UInt r2])
        (s\<lparr>winmm_state := p3, trace := trace s @
            [Call (MidiOutPrepareHeader (midi_handle s) ?hdr r1),
             Call (MidiOutLongMsg (midi_handle s) hdr1 r2),
             Call (MidiOutUnprepareHeader (midi_handle s) hdr2 r3)]\<rparr>)"
      by (auto simp: send_long_def midiOutPrepareHeader_def midiOutLongMsg_def
          midiOutUnprepareHeader_def 1 2 3 Let_def split: if_splits)
    then show ?thesis by (cases "r2 = MMSYSERR_NOERROR") simp_all
  qed
qed

lemma midi_send_quiet:
  assumes "midi_send P data len s = Some (r, s')"
  shows "midi_handle s' = midi_handle s
     \<and> (\<exists>evs. trace s' = trace s @ evs \<and> list_all (\<lambda>e. \<not> handle_call e) evs)"
proof (cases "midi_handle s = nullptr")
  case True
  with assms have "s' = BOOST_LOG Debug [Text ''MIDI send called but no device open''] s"
    by (simp add: midi_send_def)
  then show ?thesis by simp
next
  case False
  show ?thesis
  proof (cases "data = None \<or> len = 0")
    case True
    with False assms have "s' = s"
      by (auto simp: midi_send_def split: option.splits)
    then show ?thesis by simp
  next
    case n: False
    then obtain bs where bs: "data = Some bs" and len: "0 < len" by auto
    show ?thesis
    proof (cases "len \<le> 3")
      case False
      with \<open>midi_handle s \<noteq> nullptr\<close> bs len assms have "send_long P bs len s = (r, s')"
        by (simp add: midi_send_def)
      then show ?thesis by (rule send_long_quiet)
    next
      case True
      with \<open>midi_handle s \<noteq> nullptr\<close> bs len assms obtain msg where m: "short_msg bs len = Some msg"
        by (auto simp: midi_send_def split: option.splits)
      obtain result p where p: "winmm_ShortMsg P (midi_handle s) msg (winmm_state s) = (result, p)"
        by (metis prod.exhaust)
      from \<open>midi_handle s \<noteq> nullptr\<close> bs len assms True m p
      have "s' = (if result = MMSYSERR_NOERROR then id
          else BOOST_LOG Warning [Text ''MIDI short message send failed: error '', UInt result])
        (s\<lparr>winmm_state := p, trace := trace s @ [Call (MidiOutShortMsg (midi_handle s) msg result)]\<rparr>)"
        by (auto simp: midi_send_def midiOutShortMsg_def split: if_splits)
      then show ?thesis by (cases "result = MMSYSERR_NOERROR") simp_all
    qed
  qed
qed

lemma one_handle_send:
  assumes "one_handle s" and "midi_send P data len s = Some (r, s')"
  shows "one_handle s'"
  using midi_send_quiet [OF assms(2)] assms(1) by (auto intro: one_handle_quiet)

lemma log_devices_effect:
  "midi_handle (log_devices devices s) = midi_handle s
   \<and> (\<exists>evs. trace (log_devices devices s) = trace s @ evs \<and> list_all (\<lambda>e. \<not> handle_call e) evs)"
proof (induction devices arbitrary: s)
  case Nil
  show ?case by simp
next
  case (Cons dev devices)
  let ?s = "BOOST_LOG Info [Text ''  MIDI device '', SInt (dev_id dev), Text '': '',
                        Text (dev_name dev)] s"
  from Cons [of ?s] obtain evs where
    "midi_handle (log_devices devices ?s) = midi_handle ?s"
    "trace (log_devices devices ?s) = trace ?s @ evs" "list_all (\<lambda>e. \<not> handle_call e) evs"
    by blast
  then have "midi_handle (log_devices (dev # devices) s) = midi_handle s"
    "trace (log_devices (dev # devices) s) = trace s @
        (Log Info [Text ''  MIDI device '', SInt (dev_id dev), Text '': '', Text (dev_name dev)] # evs)"
    "list_all (\<lambda>e. \<not> handle_call e)
        (Log Info [Text ''  MIDI device '', SInt (dev_id dev), Text '': '', Text (dev_name dev)] # evs)"
    by simp_all
  then show ?case by blast
qed

lemma one_handle_log_devices: "one_handle s \<Longrightarrow> one_handle (log_devices devices s)"
  using log_devices_effect [of devices s] by (auto intro: one_handle_quiet)

lemma one_handle_init:
  assumes "one_handle s"
  shows "one_handle (snd (midi_init P input s))"
proof -
  obtain devices s1 where l: "midi_list_devices P (BOOST_LOG Info [Text ''Initializing MIDI subsystem''] s)
      = (devices, s1)"
    by (metis prod.exhaust)
  have 1: "one_handle s1"
    using one_handle_list_devices
      [OF one_handle_log [OF assms, of Info "[Text ''Initializing MIDI subsystem'']"], of P] l
    by simp
  define s3 where "s3 = log_devices devices (BOOST_LOG Info [Text ''Found '', Size (length devices),
                                  Text '' MIDI output device(s)''] s1)"
  have 3: "one_handle s3"
    unfolding s3_def by (intro one_handle_log_devices one_handle_log 1)
  obtain r sa where o: "midi_open P (midi_device input) s3 = (r, sa)"
    by (metis prod.exhaust)
  have 4: "one_handle sa"
    using one_handle_open [OF 3, of P "midi_device input"] o by simp
  have "snd (midi_init P input s) =
      (if midi input \<and> midi_device input \<noteq> [] then
         (if r = 0 then BOOST_LOG Info [Text ''MIDI output device opened successfully''] sa
          else BOOST_LOG Warning [Text ''Failed to open MIDI output device''] sa)
       else s3)"
    by (simp add: midi_init_def l Let_def s3_def [symmetric] o)
  with 3 4 show ?thesis
    by (simp add: one_handle_log)
qed

lemma one_handle_deinit: "one_handle s \<Longrightarrow> one_handle (midi_deinit P s)"
  by (simp add: midi_deinit_def one_handle_close one_handle_log)

lemma one_handle_step:
  assumes "one_handle s" and "api_step P c s = Some s'"
  shows "one_handle s'"
  using assms
  by (cases c)
     (auto simp: one_handle_init one_handle_deinit one_handle_list_devices one_handle_open
        one_handle_close intro: one_handle_send)

lemma one_handle_run:
  assumes "one_handle s" and "api_run P cs s = Some s'"
  shows "one_handle s'"
  using assms
  by (induction cs arbitrary: s) (auto split: option.splits intro: one_handle_step)

lemma one_handle_initial: "one_handle (initial_state p)"
  by (simp add: one_handle_def initial_state_def)

text \<open>
  C4. After any sequence of calls from the initial state, on any platform: at every
  point of the trace at most one handle is live; the handle live at the end is
  \<open>midi_handle\<close>; and if a handle is open, the first two events of a \<open>midi_open\<close> are
  the reset and the close of that handle, so they come before its \<open>midiOutOpen\<close> call.
  Two opens in a row are one such sequence.
\<close>

theorem at_most_one_live_handle:
  assumes "api_run P cs (initial_state p) = Some s"
  shows "length (live_handles (take n (trace s))) \<le> 1
     \<and> live_handles (trace s) = (if midi_handle s = nullptr then [] else [midi_handle s])
     \<and> (midi_handle s \<noteq> nullptr \<longrightarrow>
          (\<exists>r1 r2 rest. emitted s (snd (midi_open P device_name s)) =
              Call (MidiOutReset (midi_handle s) r1) # Call (MidiOutClose (midi_handle s) r2) # rest))"
proof -
  have inv: "one_handle s"
    using one_handle_run [OF one_handle_initial assms] .
  have 1: "length (live_handles (take n (trace s))) \<le> 1"
    using inv ok_from_take [of "[]" "trace s" n] by (simp add: one_handle_def live_handles_def)
  have 2: "live_handles (trace s) = (if midi_handle s = nullptr then [] else [midi_handle s])"
    using inv by (simp add: one_handle_def live_handles_def)
  have 3: "\<exists>r1 r2 rest. emitted s (snd (midi_open P device_name s)) =
              Call (MidiOutReset (midi_handle s) r1) # Call (MidiOutClose (midi_handle s) r2) # rest"
    if h: "midi_handle s \<noteq> nullptr"
  proof -
    obtain d s1 where sel: "select_device P device_name (midi_close P s) = (d, s1)"
      by (metis prod.exhaust)
    from midi_close_open(1) [OF h, of P] obtain r1 r2 where
      c: "trace (midi_close P s) =
         trace s @ [Call (MidiOutReset (midi_handle s) r1), Call (MidiOutClose (midi_handle s) r2),
                    Log Debug [Text ''Closed MIDI output device'']]"
      by blast
    from select_device_effect [OF sel] obtain evs1 where
      e1: "trace s1 = trace (midi_close P s) @ evs1"
      by blast
    have "\<exists>evs2. trace (snd (open_device P d s1)) = trace s1 @ evs2"
      by (cases rule: open_device_cases [of P s1 d]) simp_all
    then obtain evs2 where e2: "trace (snd (open_device P d s1)) = trace s1 @ evs2"
      by blast
    have "emitted s (snd (midi_open P device_name s)) =
        Call (MidiOutReset (midi_handle s) r1) # Call (MidiOutClose (midi_handle s) r2)
        # Log Debug [Text ''Closed MIDI output device''] # evs1 @ evs2"
      by (simp add: midi_open_steps sel e2 e1 c emitted_append)
    then show ?thesis by blast
  qed
  from 1 2 3 show ?thesis by blast
qed

theorem at_most_one_live_handle_witness:
  "api_run two_synths [Open ''Synth A'', Open ''Synth B''] (initial_state 0) = Some two_opens
   \<and> midi_handle two_opens = 2
   \<and> length (live_handles (take 9 (trace two_opens))) \<le> 1
   \<and> live_handles (trace two_opens) = [2]
   \<and> (\<exists>r1 r2 rest. emitted two_opens (snd (midi_open two_synths ''auto'' two_opens)) =
          Call (MidiOutReset 2 r1) # Call (MidiOutClose 2 r2) # rest)"
proof -
  have r: "api_run two_synths [Open ''Synth A'', Open ''Synth B''] (initial_state 0) = Some two_opens"
    by (simp add: two_opens_def)
  have h: "midi_handle two_opens = 2"
    by (simp add: two_opens_trace)
  from at_most_one_live_handle [OF r, of 9 "''auto''"] r h show ?thesis
    by simp
qed

subsection \<open>After a failed open\<close>

lemma midi_open_failure_handle:
  assumes "fst (midi_open P device_name s) = - 1"
  shows "midi_handle (snd (midi_open P device_name s)) = nullptr"
proof -
  obtain d s1 where sel: "select_device P device_name (midi_close P s) = (d, s1)"
    by (metis prod.exhaust)
  have o: "midi_open P device_name s = open_device P d s1"
    by (simp add: midi_open_steps sel)
  have h1: "midi_handle s1 = nullptr"
    using select_device_effect [OF sel] by (simp add: midi_close_handle)
  show ?thesis
  proof (cases rule: open_device_cases [of P s1 d])
    case (none p1)
    with h1 show ?thesis by (simp add: o)
  next
    case (attempt n p1 result h p2)
    with assms show ?thesis by (simp add: o split: if_splits)
  qed
qed

lemma closed_step:
  assumes "midi_handle s = nullptr" and "\<not> calls_midi_open c"
  shows "\<exists>s'. api_step P c s = Some s' \<and> midi_handle s' = nullptr"
proof (cases c)
  case (Init input)
  with assms show ?thesis by simp
next
  case Deinit
  then show ?thesis by (simp add: midi_deinit_def midi_close_handle)
next
  case ListDevices
  obtain devices s' where l: "midi_list_devices P s = (devices, s')"
    by (metis prod.exhaust)
  from midi_list_devices_effect [OF l] assms(1) ListDevices l show ?thesis
    by simp
next
  case (Open device_name)
  with assms show ?thesis by simp
next
  case Close
  then show ?thesis by (simp add: midi_close_handle)
next
  case (Send data len)
  with assms(1) show ?thesis by (simp add: midi_send_def)
qed

lemma closed_run:
  assumes "midi_handle s = nullptr" and "list_all (\<lambda>c. \<not> calls_midi_open c) cs"
  shows "\<exists>s'. api_run P cs s = Some s' \<and> midi_handle s' = nullptr"
  using assms
proof (induction cs arbitrary: s)
  case Nil
  then show ?case by simp
next
  case (Cons c cs)
  from closed_step [of s c P] Cons.prems obtain s1 where
    1: "api_step P c s = Some s1" "midi_handle s1 = nullptr"
    by auto
  from Cons.IH [OF 1(2)] Cons.prems(2) obtain s' where
    "api_run P cs s1 = Some s'" "midi_handle s' = nullptr"
    by auto
  with 1 show ?case by simp
qed

text \<open>
  C10. When \<open>midi_open\<close> returns -1 the handle is null afterwards, whatever it was
  before the call: the device that was open is not restored. From then on, after any
  sequence of calls that does not run \<open>midi_open\<close> again (sends, enumerations, closes),
  the handle is still null and \<open>midi_send\<close> returns -1 for every payload.
\<close>

theorem midi_open_failure_leaves_closed:
  assumes "fst (midi_open P device_name s) = - 1"
  shows "midi_handle (snd (midi_open P device_name s)) = nullptr
     \<and> (\<forall>cs data len. list_all (\<lambda>c. \<not> calls_midi_open c) cs \<longrightarrow>
           (\<exists>s1 s2. api_run P cs (snd (midi_open P device_name s)) = Some s1
              \<and> midi_handle s1 = nullptr
              \<and> midi_send P data len s1 = Some (- 1, s2)))"
proof -
  have h: "midi_handle (snd (midi_open P device_name s)) = nullptr"
    by (rule midi_open_failure_handle [OF assms])
  have "\<exists>s1 s2. api_run P cs (snd (midi_open P device_name s)) = Some s1
              \<and> midi_handle s1 = nullptr
              \<and> midi_send P data len s1 = Some (- 1, s2)"
    if "list_all (\<lambda>c. \<not> calls_midi_open c) cs" for cs data len
  proof -
    from closed_run [OF h that, of P] obtain s1 where
      1: "api_run P cs (snd (midi_open P device_name s)) = Some s1" "midi_handle s1 = nullptr"
      by blast
    then have "midi_send P data len s1
        = Some (- 1, BOOST_LOG Debug [Text ''MIDI send called but no device open''] s1)"
      by (simp add: midi_send_def)
    with 1 show ?thesis by blast
  qed
  with h show ?thesis by blast
qed

theorem midi_open_failure_leaves_closed_witness:
  "fst (midi_open (simulated_winmm [''Synth A''] 4 0 0 0 0) ''auto'' open_state) = - 1
   \<and> midi_handle open_state \<noteq> nullptr
   \<and> midi_handle (snd (midi_open (simulated_winmm [''Synth A''] 4 0 0 0 0) ''auto'' open_state)) = nullptr
   \<and> (\<exists>s1 s2. api_run (simulated_winmm [''Synth A''] 4 0 0 0 0)
           [Send (Some [0x90, 0x40, 0x7F]) 3, ListDevices, Close]
           (snd (midi_open (simulated_winmm [''Synth A''] 4 0 0 0 0) ''auto'' open_state)) = Some s1
         \<and> midi_handle s1 = nullptr
         \<and> midi_send (simulated_winmm [''Synth A''] 4 0 0 0 0) (Some [0x90, 0x40, 0x7F]) 3 s1
             = Some (- 1, s2))"
proof -
  have h: "fst (midi_open (simulated_winmm [''Synth A''] 4 0 0 0 0) ''auto'' open_state) = - 1"
    by (simp add: run_simulated)
  have o: "midi_handle open_state \<noteq> nullptr"
    by (simp add: open_state_def)
  have c: "list_all (\<lambda>c. \<not> calls_midi_open c) [Send (Some [0x90, 0x40, 0x7F]) 3, ListDevices, Close]"
    by simp
  from midi_open_failure_leaves_closed [OF h] c h o show ?thesis by blast
qed

end
